(* ===== verification/Prelude.thy ===== *)
theory Prelude
  imports Main
begin

text \<open>
  Shared vocabulary of the development: the Python exceptions the handlers of
  \<^verbatim>\<open>src/api.py\<close> can raise, the result type \<open>py_exn + 'a\<close> that carries them,
  its bind, the decimal printing of numbers, the row ids the database hands out, and
  the generic lemmas on lists that the table queries (\<^verbatim>\<open>.first()\<close>,
  \<^verbatim>\<open>.filter_by\<close>, \<^verbatim>\<open>.all()\<close>) of every component rely on.
\<close>

named_theorems handler_simps \<open>equations that evaluate a request handler\<close>

section \<open>Exceptions and results\<close>

text \<open>
  An exception of the source is a value of \<open>py_exn\<close>.  \<open>KeyError\<close> carries the
  missing key because \<^verbatim>\<open>update_user\<close> catches exactly that exception; the others are
  only ever turned into the 500 response of \<^verbatim>\<open>internal_error\<close>.
  \<open>DbError\<close> stands for the errors the database driver raises at flush time (a value
  it cannot bind, a non-boolean written into a Boolean column), \<open>IntegrityError\<close>
  for a violated unique constraint, \<open>UnmappedInstanceError\<close> for
  \<^verbatim>\<open>db.session.delete(None)\<close>, \<open>BadRequest\<close> for werkzeug's HTTP exception
  that \<^verbatim>\<open>request.get_json()\<close> raises on a body that is not valid JSON (Flask answers
  it with status 400, not through the 500 handler).
\<close>

datatype py_exn =
    KeyError string
  | TypeError
  | AttributeError
  | ValueError
  | DbError
  | IntegrityError
  | UnmappedInstanceError
  | BadRequest

type_synonym 'a result = "py_exn + 'a"

definition bind_r :: "'a result \<Rightarrow> ('a \<Rightarrow> 'b result) \<Rightarrow> 'b result" where
  "bind_r m f = (case m of Inl e \<Rightarrow> Inl e | Inr x \<Rightarrow> f x)"

section \<open>Decimal printing\<close>

text \<open>\<^verbatim>\<open>str(n)\<close> of a Python integer, used for text columns and messages.\<close>

definition digit_char :: "nat \<Rightarrow> char" where
  "digit_char n = char_of (48 + n)"

fun nat_str :: "nat \<Rightarrow> string" where
  "nat_str n = (if n < 10 then [digit_char n] else nat_str (n div 10) @ [digit_char (n mod 10)])"

definition int_str :: "int \<Rightarrow> string" where
  "int_str i = (if i < 0 then CHR ''-'' # nat_str (nat (- i)) else nat_str (nat i))"

section \<open>Fresh row ids\<close>

text \<open>
  The id SQLite gives a new row of an \<^verbatim>\<open>INTEGER PRIMARY KEY\<close> table without
  \<^verbatim>\<open>AUTOINCREMENT\<close>: one more than the largest id in the table, 1 in an empty one.
\<close>

definition next_id :: "nat list \<Rightarrow> nat" where
  "next_id ids = Suc (foldr max ids 0)"

section \<open>Abstract keyed stores\<close>

text \<open>
  The specification describes each table as a finite map from a key to a value; the
  views update an existing entry or remove one.  \<open>keyed k f\<close>
  reads a table as such a map: the entry of key \<open>k r\<close> is \<open>f r\<close>, the first row
  winning when keys repeat (they do not in a well-formed table).
\<close>

definition keyed :: "('r \<Rightarrow> 'k) \<Rightarrow> ('r \<Rightarrow> 'v) \<Rightarrow> 'r list \<Rightarrow> 'k \<rightharpoonup> 'v" where
  "keyed k f xs = map_of (map (\<lambda>u. (k u, f u)) xs)"

definition store_update :: "'k \<Rightarrow> ('v \<Rightarrow> 'v) \<Rightarrow> ('k \<rightharpoonup> 'v) \<Rightarrow> ('k \<rightharpoonup> 'v)" where
  "store_update k f m = (case m k of None \<Rightarrow> m | Some v \<Rightarrow> m(k \<mapsto> f v))"

definition store_delete :: "'k \<Rightarrow> ('k \<rightharpoonup> 'v) \<Rightarrow> ('k \<rightharpoonup> 'v)" where
  "store_delete k m = m(k := None)"

declare nat_str.simps [simp del]

section \<open>Lemmas on results\<close>

lemma bind_r_Inl [simp]: "bind_r (Inl e) f = Inl e"
  by (simp add: bind_r_def)

lemma bind_r_Inr [simp]: "bind_r (Inr x) f = f x"
  by (simp add: bind_r_def)

lemma bind_r_eq_Inr [simp]:
  "bind_r m f = Inr y \<longleftrightarrow> (\<exists>x. m = Inr x \<and> f x = Inr y)"
  by (cases m) simp_all

lemma bind_r_eq_Inl:
  "bind_r m f = Inl e \<longleftrightarrow> m = Inl e \<or> (\<exists>x. m = Inr x \<and> f x = Inl e)"
  by (cases m) simp_all

lemma nat_str_nonempty: "nat_str n \<noteq> []"
  by (subst nat_str.simps) simp

section \<open>Queries over ordered tables\<close>

text \<open>
  A table is a list of rows in row-id order; \<^verbatim>\<open>query.filter_by(..).first()\<close> is
  \<open>find\<close>, \<^verbatim>\<open>filter_by(..)\<close> iterated is \<open>filter\<close>.  These are the facts about
  them that the component proofs share.
\<close>

lemma find_Some_prop: "find P xs = Some x \<Longrightarrow> P x \<and> x \<in> set xs"
  by (induction xs) (auto split: if_splits)

lemma find_key_unique:
  assumes "distinct (map k xs)" and "x \<in> set xs" and "k x = v"
  shows "find (\<lambda>r. k r = v) xs = Some x"
  using assms
proof (induction xs)
  case Nil
  then show ?case by simp
next
  case (Cons y ys)
  then show ?case by (auto simp: rev_image_eqI)
qed

lemma find_append_fresh:
  "\<forall>x \<in> set xs. \<not> P x \<Longrightarrow> P y \<Longrightarrow> find P (xs @ [y]) = Some y"
  by (induction xs) auto

lemma find_append_keep:
  "find P xs = Some x \<Longrightarrow> find P (xs @ ys) = Some x"
  by (induction xs) (auto split: if_splits)

section \<open>Lemmas on fresh row ids\<close>

lemma foldr_max_ge: "x \<in> set xs \<Longrightarrow> x \<le> foldr max xs (a::nat)"
  by (induction xs) (auto simp: le_max_iff_disj)

lemma next_id_fresh: "x \<in> set ids \<Longrightarrow> x < next_id ids"
  by (simp add: next_id_def foldr_max_ge le_imp_less_Suc)

lemma sorted_wrt_append_next_id:
  "sorted_wrt (<) ids \<Longrightarrow> sorted_wrt (<) (ids @ [next_id ids])"
  by (auto simp: sorted_wrt_append next_id_fresh)

lemma sorted_wrt_map_filter:
  "sorted_wrt R (map f xs) \<Longrightarrow> sorted_wrt R (map f (filter P xs))"
  by (induction xs) auto

section \<open>Keyed tables as maps\<close>

text \<open>
  A table whose key column is duplicate-free read as a map from keys to rows: appending,
  removing and replacing one row are operations of the map.
\<close>

lemma map_of_keyed_remove:
  assumes "distinct (map k xs)" and "r \<in> set xs"
  shows "map_of (map (\<lambda>u. (k u, f u)) (filter (\<lambda>x. x \<noteq> r) xs)) =
         (map_of (map (\<lambda>u. (k u, f u)) xs))(k r := None)"
  using assms
proof (induction xs)
  case Nil
  then show ?case by simp
next
  case (Cons y ys)
  show ?case
  proof (cases "y = r")
    case True
    with Cons.prems have "r \<notin> set ys" "k r \<notin> k ` set ys" by auto
    then have "filter (\<lambda>x. x \<noteq> r) ys = ys" by (auto simp: filter_id_conv)
    moreover have "map_of (map (\<lambda>u. (k u, f u)) ys) (k r) = None"
      using \<open>k r \<notin> k ` set ys\<close> by (auto simp: map_of_eq_None_iff)
    ultimately show ?thesis using True by (auto simp: fun_eq_iff)
  next
    case False
    with Cons.prems have "r \<in> set ys" and "k y \<noteq> k r" and "distinct (map k ys)"
      by (auto simp: rev_image_eqI)
    with Cons.IH False show ?thesis by (auto simp: fun_eq_iff)
  qed
qed

lemma map_of_keyed_replace:
  assumes "distinct (map k xs)" and "r0 \<in> set xs" and "k r = k r0"
  shows "map_of (map (\<lambda>u. (k u, f u)) (map (\<lambda>x. if x = r0 then r else x) xs)) =
         (map_of (map (\<lambda>u. (k u, f u)) xs))(k r0 \<mapsto> f r)"
  using assms
proof (induction xs)
  case Nil
  then show ?case by simp
next
  case (Cons y ys)
  show ?case
  proof (cases "y = r0")
    case True
    with Cons.prems have "r0 \<notin> set ys" by auto
    then have "map (\<lambda>x. if x = r0 then r else x) ys = ys" by (induction ys) auto
    with True Cons.prems show ?thesis by (auto simp: fun_eq_iff)
  next
    case False
    with Cons.prems have "r0 \<in> set ys" and "k y \<noteq> k r0" and "distinct (map k ys)"
      by (auto simp: rev_image_eqI)
    with Cons.IH Cons.prems False show ?thesis by (auto simp: fun_eq_iff)
  qed
qed

lemma filter_key_eq_remove:
  assumes "distinct (map i xs)" and "r \<in> set xs"
  shows "filter (\<lambda>x. i x \<noteq> i r) xs = filter (\<lambda>x. x \<noteq> r) xs"
proof -
  have "\<And>x. x \<in> set xs \<Longrightarrow> (i x \<noteq> i r) = (x \<noteq> r)"
    using assms by (metis distinct_map inj_onD)
  then show ?thesis by (rule filter_cong [OF refl])
qed

section \<open>Lemmas on keyed stores\<close>

lemma dom_keyed: "dom (keyed k f xs) = k ` set xs"
  by (simp add: keyed_def dom_map_of_conv_image_fst image_image)

lemma keyed_member:
  "distinct (map k xs) \<Longrightarrow> r \<in> set xs \<Longrightarrow> keyed k f xs (k r) = Some (f r)"
  unfolding keyed_def by (rule map_of_is_SomeI) (auto simp: comp_def)

lemma keyed_remove:
  "distinct (map k xs) \<Longrightarrow> r \<in> set xs \<Longrightarrow>
   keyed k f (filter (\<lambda>x. x \<noteq> r) xs) = store_delete (k r) (keyed k f xs)"
  by (simp add: keyed_def store_delete_def map_of_keyed_remove)

lemma keyed_replace:
  "distinct (map k xs) \<Longrightarrow> r0 \<in> set xs \<Longrightarrow> k r = k r0 \<Longrightarrow>
   keyed k f (map (\<lambda>x. if x = r0 then r else x) xs) = store_update (k r0) (\<lambda>_. f r) (keyed k f xs)"
  by (simp add: keyed_def store_update_def map_of_keyed_replace keyed_member [unfolded keyed_def]
      del: map_map)

lemma store_update_id [simp]: "store_update k (\<lambda>v. v) m = m"
  by (auto simp: store_update_def split: option.splits)

lemma keyed_SomeD: "keyed k f xs a = Some v \<Longrightarrow> \<exists>r \<in> set xs. k r = a \<and> f r = v"
  by (auto simp: keyed_def dest!: map_of_SomeD)

lemma store_update_cong:
  "m k = Some v \<Longrightarrow> f v = g v \<Longrightarrow> store_update k f m = store_update k g m"
  by (simp add: store_update_def)

lemma find_sorted_least:
  "find P xs = Some x \<Longrightarrow> sorted_wrt (<) (map k xs) \<Longrightarrow> y \<in> set xs \<Longrightarrow> P y \<Longrightarrow>
   (k x :: 'a :: linorder) \<le> k y"
  by (induction xs) (auto split: if_splits intro: less_imp_le)

end
