(* ===== verification/Crypto.thy ===== *)
theory Crypto
  imports Prelude
begin

text \<open>
  The two libraries \<^verbatim>\<open>src/api.py\<close> calls for authentication, modelled from their
  documented contracts (their code is not part of the repository):
  \<^item> werkzeug's \<^verbatim>\<open>generate_password_hash\<close> / \<^verbatim>\<open>check_password_hash\<close>: a salted
    one-way hash.  The hash is a symbolic value \<open>PwHash salt plaintext\<close>, in the style
    of the symbolic cryptography of the Isabelle protocol proofs: two hashes agree only
    on the same salt and plaintext, and checking compares plaintexts.
  \<^item> PyJWT's \<^verbatim>\<open>jwt.encode\<close> / \<^verbatim>\<open>jwt.decode\<close> with HS256: a token is the claims
    signed with a key, \<open>JWT claims key\<close>.  Decoding checks the key and the
    \<^verbatim>\<open>exp\<close> claim against the clock (PyJWT rejects when \<^verbatim>\<open>exp <= now\<close>).
  Time is whole seconds since the epoch: PyJWT writes \<^verbatim>\<open>exp\<close> as an integer
  timestamp, and \<open>exp \<le> now\<close> with an integer \<open>exp\<close> is the same test on the
  floor of the clock.
\<close>

section \<open>Password hashes\<close>

type_synonym salt = nat

datatype pw_hash = PwHash salt string

definition generate_password_hash :: "salt \<Rightarrow> string \<Rightarrow> pw_hash" where
  "generate_password_hash s pw = PwHash s pw"

fun check_password_hash :: "pw_hash \<Rightarrow> string \<Rightarrow> bool" where
  "check_password_hash (PwHash s pw) attempt = (pw = attempt)"

section \<open>Signed tokens\<close>

type_synonym secret = string

text \<open>
  The claims of a token: the public id and the expiry, each possibly absent in a
  token signed elsewhere with the same key.
\<close>

record claims =
  claim_public_id :: "string option"
  claim_exp :: "int option"

datatype token = JWT claims secret

text \<open>
  The value of the \<^verbatim>\<open>X-Access-Token\<close> header: a well-formed signed token, or any
  other string, which \<^verbatim>\<open>jwt.decode\<close> rejects as malformed.
\<close>

datatype access_token = Tok token | Junk string

definition jwt_encode :: "claims \<Rightarrow> secret \<Rightarrow> token" where
  "jwt_encode c k = JWT c k"

fun jwt_decode :: "int \<Rightarrow> access_token \<Rightarrow> secret \<Rightarrow> claims option" where
  "jwt_decode now (Junk s) k = None"
| "jwt_decode now (Tok (JWT c k')) k =
     (if k' \<noteq> k then None
      else (case claim_exp c of
              None \<Rightarrow> Some c
            | Some e \<Rightarrow> if e \<le> now then None else Some c))"

section \<open>Lemmas: hashes round-trip, tokens decode only when signed and fresh\<close>

lemma check_generate_password_hash [simp]:
  "check_password_hash (generate_password_hash s pw) attempt \<longleftrightarrow> attempt = pw"
  by (auto simp: generate_password_hash_def)

lemma jwt_decode_encode:
  "claim_exp c = Some e \<Longrightarrow> now < e \<Longrightarrow> jwt_decode now (Tok (jwt_encode c k)) k = Some c"
  by (simp add: jwt_encode_def)

lemma jwt_decode_expired:
  "jwt_decode now t k = Some c \<Longrightarrow> claim_exp c = Some e \<Longrightarrow> now < e"
  by (cases "(now, t, k)" rule: jwt_decode.cases) (auto split: if_splits option.splits)

lemma jwt_decode_Some_signed:
  "jwt_decode now t k = Some c \<Longrightarrow> t = Tok (JWT c k)"
  by (cases "(now, t, k)" rule: jwt_decode.cases) (auto split: if_splits option.splits)

end
