(* ===== verification/Json.thy ===== *)
theory Json
  imports Crypto
begin

text \<open>
  JSON values as the handlers of \<^verbatim>\<open>src/api.py\<close> see them: the parsed request body
  (\<^verbatim>\<open>request.get_json()\<close>) and the payloads they give to \<^verbatim>\<open>jsonify\<close>.  Two
  opaque leaves stand for values the program only passes through: a stored password hash
  and a signed token (their text form is the libraries' business).  A parsed request
  body never contains them.

  Then the Python operations the handlers apply to these values: truthiness
  (\<^verbatim>\<open>if data['name']:\<close>), subscripting (\<^verbatim>\<open>data['name']\<close>, raising
  \<open>KeyError\<close> or \<open>TypeError\<close>), \<^verbatim>\<open>dict.get\<close>, \<^verbatim>\<open>int(s)\<close>, and the two
  conversions the database applies when a value is written into a column: a text column
  (\<^verbatim>\<open>db.String\<close>, TEXT affinity in SQLite) and a Boolean column (SQLAlchemy's strict
  \<^verbatim>\<open>Boolean\<close>, which accepts only \<^verbatim>\<open>None\<close>, \<^verbatim>\<open>True\<close>, \<^verbatim>\<open>False\<close> and the
  equal integers 0 and 1).
\<close>

datatype jval =
    JNull
  | JBool bool
  | JNum int
  | JStr string
  | JArr "jval list"
  | JObj "(string \<times> jval) list"
  | JHash pw_hash
  | JToken token

section \<open>Python operations on values\<close>

fun truthy :: "jval \<Rightarrow> bool" where
  "truthy JNull = False"
| "truthy (JBool b) = b"
| "truthy (JNum i) = (i \<noteq> 0)"
| "truthy (JStr s) = (s \<noteq> [])"
| "truthy (JArr xs) = (xs \<noteq> [])"
| "truthy (JObj kvs) = (kvs \<noteq> [])"
| "truthy (JHash h) = True"
| "truthy (JToken t) = True"

text \<open>A JSON object with a repeated key keeps the last value, as \<^verbatim>\<open>json.loads\<close> does.\<close>

definition obj_lookup :: "(string \<times> jval) list \<Rightarrow> string \<Rightarrow> jval option" where
  "obj_lookup kvs k = map_of (rev kvs) k"

text \<open>
  \<^verbatim>\<open>data[k]\<close> where \<^verbatim>\<open>data = request.get_json()\<close>: \<open>None\<close> is a body not
  declared as JSON; subscripting it, or any value but an object, with a string raises
  \<open>TypeError\<close>.
\<close>

definition subscript :: "jval option \<Rightarrow> string \<Rightarrow> jval result" where
  "subscript data k =
     (case data of
        Some (JObj kvs) \<Rightarrow> (case obj_lookup kvs k of None \<Rightarrow> Inl (KeyError k) | Some v \<Rightarrow> Inr v)
      | _ \<Rightarrow> Inl TypeError)"

text \<open>\<^verbatim>\<open>data.get(k)\<close>: Python \<^verbatim>\<open>None\<close> (here \<open>JNull\<close>) for a missing key.\<close>

definition dict_get :: "jval option \<Rightarrow> string \<Rightarrow> jval result" where
  "dict_get data k =
     (case data of
        Some (JObj kvs) \<Rightarrow> (case obj_lookup kvs k of None \<Rightarrow> Inr JNull | Some v \<Rightarrow> Inr v)
      | _ \<Rightarrow> Inl AttributeError)"

section \<open>Column conversions\<close>

text \<open>
  Writing a value into a text column: strings are stored as they are, numbers and
  booleans as their text (SQLite's TEXT affinity; Python's \<open>True\<close> binds as 1),
  \<open>None\<close> as NULL; a list or an object cannot be bound and the flush fails
  (outer \<open>None\<close>).
\<close>

fun sql_text :: "jval \<Rightarrow> string option option" where
  "sql_text JNull = Some None"
| "sql_text (JStr s) = Some (Some s)"
| "sql_text (JNum i) = Some (Some (int_str i))"
| "sql_text (JBool b) = Some (Some (if b then ''1'' else ''0''))"
| "sql_text _ = None"

fun sql_bool :: "jval \<Rightarrow> bool option option" where
  "sql_bool JNull = Some None"
| "sql_bool (JBool b) = Some (Some b)"
| "sql_bool (JNum i) = (if i = 0 then Some (Some False) else if i = 1 then Some (Some True) else None)"
| "sql_bool _ = None"

text \<open>Reading a nullable column back into a JSON payload.\<close>

definition jtext :: "string option \<Rightarrow> jval" where
  "jtext s = (case s of None \<Rightarrow> JNull | Some t \<Rightarrow> JStr t)"

definition jbool :: "bool option \<Rightarrow> jval" where
  "jbool b = (case b of None \<Rightarrow> JNull | Some c \<Rightarrow> JBool c)"

section \<open>int() of a path segment\<close>

text \<open>
  \<^verbatim>\<open>int(s)\<close> on a string, as CPython reads it: surrounding white space is
  stripped, then an optional sign and decimal digits, single underscores allowed between
  digits; anything else raises \<open>ValueError\<close> (\<open>None\<close> here).  Characters are
  bytes in the model, so the Unicode digits and spaces \<^verbatim>\<open>int()\<close> also accepts are
  not modelled; the ASCII white space of \<^verbatim>\<open>str.isspace\<close> is.
\<close>

definition is_digit :: "char \<Rightarrow> bool" where
  "is_digit c \<longleftrightarrow> 48 \<le> (of_char c :: nat) \<and> (of_char c :: nat) \<le> 57"

definition py_space :: "char \<Rightarrow> bool" where
  "py_space c \<longleftrightarrow> (let n = (of_char c :: nat) in (9 \<le> n \<and> n \<le> 13) \<or> (28 \<le> n \<and> n \<le> 32))"

definition py_strip :: "string \<Rightarrow> string" where
  "py_strip s = rev (dropWhile py_space (rev (dropWhile py_space s)))"

fun digits_val :: "nat \<Rightarrow> string \<Rightarrow> nat" where
  "digits_val acc [] = acc"
| "digits_val acc (c # cs) = digits_val (10 * acc + (of_char c - 48)) cs"

fun single_underscores :: "string \<Rightarrow> bool" where
  "single_underscores (a # b # r) =
     (\<not> (a = CHR ''_'' \<and> b = CHR ''_'') \<and> single_underscores (b # r))"
| "single_underscores _ = True"

definition parse_nat :: "string \<Rightarrow> nat option" where
  "parse_nat s =
     (if s \<noteq> [] \<and> is_digit (hd s) \<and> is_digit (last s) \<and>
         list_all (\<lambda>c. is_digit c \<or> c = CHR ''_'') s \<and> single_underscores s
      then Some (digits_val 0 (filter is_digit s)) else None)"

definition parse_int :: "string \<Rightarrow> int option" where
  "parse_int s0 =
     (let s = py_strip s0 in
      if s \<noteq> [] \<and> hd s = CHR ''-'' then map_option (\<lambda>n. - int n) (parse_nat (tl s))
      else if s \<noteq> [] \<and> hd s = CHR ''+'' then map_option int (parse_nat (tl s))
      else map_option int (parse_nat s))"

section \<open>A text compared with an INTEGER column\<close>

text \<open>
  \<^verbatim>\<open>filter_by(user_id=todo_id)\<close> in \<^verbatim>\<open>delete_todo\<close> binds the path string as
  TEXT and compares it with the INTEGER column \<^verbatim>\<open>user_id\<close>.  SQLite then applies
  numeric affinity to the text: when, between optional white space, it is a decimal
  literal (sign, digits with an optional point, optional exponent) it becomes that number
  and is compared numerically, so \<^verbatim>\<open>1\<close>, \<^verbatim>\<open>01\<close>, \<^verbatim>\<open>1.0\<close>, \<^verbatim>\<open>1e0\<close> and
  \<^verbatim>\<open> 1\<close> all equal 1; otherwise it stays TEXT, which no INTEGER equals.
  \<open>sql_numeric\<close> reads the literal as \<open>(m, f, x)\<close>, the value
  \<open>m * 10 ^ x / 10 ^ f\<close>, and \<open>sql_eq_int\<close> compares it exactly with an integer.
  SQLite converts a non-integer literal through a double; texts with more significant
  digits than a double holds are outside the model.
\<close>

definition sql_space :: "char \<Rightarrow> bool" where
  "sql_space c \<longleftrightarrow> (let n = (of_char c :: nat) in (9 \<le> n \<and> n \<le> 13) \<or> n = 32)"

definition sql_sign :: "string \<Rightarrow> bool \<times> string" where
  "sql_sign s =
     (if s \<noteq> [] \<and> hd s = CHR ''-'' then (True, tl s)
      else if s \<noteq> [] \<and> hd s = CHR ''+'' then (False, tl s) else (False, s))"

definition sql_exponent :: "string \<Rightarrow> int option" where
  "sql_exponent s =
     (if s = [] then Some 0
      else if hd s = CHR ''e'' \<or> hd s = CHR ''E'' then
        (case sql_sign (tl s) of (neg, ds) \<Rightarrow>
           if ds \<noteq> [] \<and> list_all is_digit ds
           then Some (if neg then - int (digits_val 0 ds) else int (digits_val 0 ds)) else None)
      else None)"

definition sql_numeric :: "string \<Rightarrow> (int \<times> nat \<times> int) option" where
  "sql_numeric s0 =
     (case sql_sign (rev (dropWhile sql_space (rev (dropWhile sql_space s0)))) of (neg, r) \<Rightarrow>
      let ip = takeWhile is_digit r; r1 = dropWhile is_digit r;
          fp = (if r1 \<noteq> [] \<and> hd r1 = CHR ''.'' then takeWhile is_digit (tl r1) else []);
          r2 = (if r1 \<noteq> [] \<and> hd r1 = CHR ''.'' then dropWhile is_digit (tl r1) else r1);
          m = int (digits_val 0 (ip @ fp))
      in if ip @ fp = [] then None
         else map_option (\<lambda>x. (if neg then - m else m, length fp, x)) (sql_exponent r2))"

definition sql_eq_int :: "string \<Rightarrow> int \<Rightarrow> bool" where
  "sql_eq_int s n =
     (case sql_numeric s of
        None \<Rightarrow> False
      | Some (m, f, x) \<Rightarrow>
          (let k = x - int f in if 0 \<le> k then m * 10 ^ nat k = n else m = n * 10 ^ nat (- k)))"

text \<open>
  Arguments the handlers pass on: a password must be a string (werkzeug calls
  \<^verbatim>\<open>password.encode\<close>), a value written to a column must convert, a path
  segment given to \<^verbatim>\<open>int()\<close> must parse.
\<close>

definition str_arg :: "jval \<Rightarrow> string result" where
  "str_arg v = (case v of JStr s \<Rightarrow> Inr s | _ \<Rightarrow> Inl AttributeError)"

definition text_col :: "jval \<Rightarrow> string option result" where
  "text_col v = (case sql_text v of None \<Rightarrow> Inl DbError | Some t \<Rightarrow> Inr t)"

definition bool_col :: "jval \<Rightarrow> bool option result" where
  "bool_col v = (case sql_bool v of None \<Rightarrow> Inl DbError | Some b \<Rightarrow> Inr b)"

definition int_arg :: "string \<Rightarrow> int result" where
  "int_arg s = (case parse_int s of None \<Rightarrow> Inl ValueError | Some i \<Rightarrow> Inr i)"

section \<open>Lemmas on values\<close>

lemma subscript_obj [simp]:
  "subscript (Some (JObj kvs)) k = (case obj_lookup kvs k of None \<Rightarrow> Inl (KeyError k) | Some v \<Rightarrow> Inr v)"
  by (simp add: subscript_def)

lemma subscript_Inr_obj:
  "subscript data k = Inr v \<Longrightarrow> \<exists>kvs. data = Some (JObj kvs) \<and> obj_lookup kvs k = Some v"
  by (auto simp: subscript_def split: option.splits jval.splits)

lemma subscript_KeyError:
  "subscript data k = Inl (KeyError k') \<Longrightarrow> k' = k"
  by (auto simp: subscript_def split: option.splits jval.splits)

lemma sql_text_JStr_jtext: "sql_text (JStr s) = Some t \<Longrightarrow> jtext t = JStr s"
  by (auto simp: jtext_def)

lemma sql_bool_truthy:
  "truthy v \<Longrightarrow> sql_bool v = Some b \<Longrightarrow> b = Some True"
  by (cases v) (auto split: if_splits)

lemma text_col_JStr [simp]: "text_col (JStr s) = Inr (Some s)"
  by (simp add: text_col_def)

lemma bool_col_truthy:
  "truthy v \<Longrightarrow> bool_col v = Inr b \<Longrightarrow> b = Some True"
  by (auto simp: bool_col_def dest: sql_bool_truthy split: option.splits)

section \<open>Evaluating the readers\<close>

lemmas int_reader_defs = parse_int_def py_strip_def py_space_def parse_nat_def is_digit_def Let_def

lemmas sql_reader_defs = sql_eq_int_def sql_numeric_def sql_sign_def sql_exponent_def sql_space_def
  is_digit_def Let_def

section \<open>Decimal text read back\<close>

text \<open>
  \<open>nat_str\<close> writes only digits, at least one; SQLite reads such a text as the
  number it prints.
\<close>

lemma digits_val_append: "digits_val acc (xs @ ys) = digits_val (digits_val acc xs) ys"
  by (induction xs arbitrary: acc) simp_all

lemma of_char_digit_char: "k < 10 \<Longrightarrow> (of_char (digit_char k) :: nat) = 48 + k"
  by (simp add: digit_char_def)

lemma is_digit_digit_char: "k < 10 \<Longrightarrow> is_digit (digit_char k)"
  by (simp add: is_digit_def of_char_digit_char)

lemma nat_str_digits: "list_all is_digit (nat_str n)"
proof (induction n rule: nat_str.induct)
  case (1 n)
  then show ?case
    by (subst nat_str.simps) (simp add: is_digit_digit_char)
qed

lemma digits_val_nat_str: "digits_val 0 (nat_str n) = n"
proof (induction n rule: nat_str.induct)
  case (1 n)
  then show ?case
    by (subst nat_str.simps) (auto simp: digits_val_append of_char_digit_char)
qed

lemma digits_not_sql_space: "list_all is_digit s \<Longrightarrow> dropWhile sql_space s = s"
  by (cases s) (auto simp: is_digit_def sql_space_def Let_def)

lemma sql_numeric_digits:
  assumes "s \<noteq> []" and "list_all is_digit s"
  shows "sql_numeric s = Some (int (digits_val 0 s), 0, 0)"
proof -
  have "hd s \<noteq> CHR ''-''" and "hd s \<noteq> CHR ''+''"
    using assms by (cases s; auto simp: is_digit_def)+
  then have "sql_sign s = (False, s)" by (simp add: sql_sign_def)
  moreover have tw: "takeWhile is_digit s = s" and dw: "dropWhile is_digit s = []"
    using assms(2) by (simp_all add: list_all_iff)
  ultimately show ?thesis
    using assms(1,2) by (simp add: sql_numeric_def digits_not_sql_space sql_exponent_def tw dw Let_def)
qed

lemma sql_eq_int_nat_str [simp]: "sql_eq_int (nat_str n) m \<longleftrightarrow> m = int n"
  by (auto simp: sql_eq_int_def sql_numeric_digits nat_str_nonempty nat_str_digits
      digits_val_nat_str)

end
