(* ===== verification/Store.thy ===== *)
theory Store
  imports Json
begin

text \<open>
  The persistence store: the two tables of \<^verbatim>\<open>src/api.py\<close> (classes \<^verbatim>\<open>User\<close>
  and \<^verbatim>\<open>Todo\<close>) as records, the database as a record of the two tables, each a list
  of rows in row-id order, and the operations of the SQLAlchemy session that the handlers
  call: \<^verbatim>\<open>db.session.add\<close> followed by \<^verbatim>\<open>commit\<close> (a new row with the next row
  id, refused by the unique constraint on \<^verbatim>\<open>public_id\<close>), \<^verbatim>\<open>commit\<close> of a
  modified row, and \<^verbatim>\<open>db.session.delete\<close>.  A query without \<^verbatim>\<open>ORDER BY\<close> scans
  in row-id order, so \<^verbatim>\<open>.first()\<close> is the first matching row of the list.

  The invariant \<open>wf_db\<close>: row ids strictly increasing in both tables and public ids
  distinct.  Every operation keeps it.
\<close>

record user_row =
  uid :: nat
  public_id :: string
  name :: "string option"
  password :: pw_hash
  admin :: bool

record todo_row =
  tid :: nat
  user_id :: nat
  description :: "string option"
  complete :: "bool option"

record db =
  users :: "user_row list"
  todos :: "todo_row list"

definition empty_db :: db where
  "empty_db = \<lparr>users = [], todos = []\<rparr>"

definition wf_db :: "db \<Rightarrow> bool" where
  "wf_db d \<longleftrightarrow>
     sorted_wrt (<) (map uid (users d)) \<and>
     distinct (map public_id (users d)) \<and>
     sorted_wrt (<) (map tid (todos d))"

section \<open>Session operations\<close>

definition add_user :: "db \<Rightarrow> string \<Rightarrow> string option \<Rightarrow> pw_hash \<Rightarrow> bool \<Rightarrow> db result" where
  "add_user d pid nm pw adm =
     (if pid \<in> set (map public_id (users d)) then Inl IntegrityError
      else Inr (d\<lparr>users := users d @
              [\<lparr>uid = next_id (map uid (users d)), public_id = pid, name = nm,
                password = pw, admin = adm\<rparr>]\<rparr>))"

definition add_todo :: "db \<Rightarrow> nat \<Rightarrow> string option \<Rightarrow> bool option \<Rightarrow> db" where
  "add_todo d owner descr done =
     d\<lparr>todos := todos d @
        [\<lparr>tid = next_id (map tid (todos d)), user_id = owner, description = descr,
          complete = done\<rparr>]\<rparr>"

definition save_user :: "db \<Rightarrow> user_row \<Rightarrow> db" where
  "save_user d r = d\<lparr>users := map (\<lambda>x. if uid x = uid r then r else x) (users d)\<rparr>"

definition save_todo :: "db \<Rightarrow> todo_row \<Rightarrow> db" where
  "save_todo d t = d\<lparr>todos := map (\<lambda>x. if tid x = tid t then t else x) (todos d)\<rparr>"

definition delete_user_row :: "db \<Rightarrow> user_row \<Rightarrow> db" where
  "delete_user_row d r = d\<lparr>users := filter (\<lambda>x. uid x \<noteq> uid r) (users d)\<rparr>"

definition delete_todo_row :: "db \<Rightarrow> todo_row \<Rightarrow> db" where
  "delete_todo_row d t = d\<lparr>todos := filter (\<lambda>x. tid x \<noteq> tid t) (todos d)\<rparr>"

text \<open>
  A small store used by the examples: two accounts and two tasks; the first task
  belongs to the second account.
\<close>

definition demo_alice :: user_row where
  "demo_alice = \<lparr>uid = 1, public_id = ''8c1f-alice'', name = Some ''alice'',
     password = PwHash 17 ''s3cret'', admin = False\<rparr>"

definition demo_bob :: user_row where
  "demo_bob = \<lparr>uid = 2, public_id = ''4b2e-bob'', name = Some ''bob'',
     password = PwHash 23 ''hunter2'', admin = True\<rparr>"

definition demo_task :: todo_row where
  "demo_task = \<lparr>tid = 1, user_id = 2, description = Some ''buy milk'', complete = Some False\<rparr>"

definition demo_task2 :: todo_row where
  "demo_task2 = \<lparr>tid = 2, user_id = 1, description = Some ''walk dog'', complete = Some True\<rparr>"

definition demo_db :: db where
  "demo_db = \<lparr>users = [demo_alice, demo_bob], todos = [demo_task, demo_task2]\<rparr>"

lemmas demo_store_defs = demo_alice_def demo_bob_def demo_task_def demo_task2_def demo_db_def

lemmas store_ops_defs = add_user_def add_todo_def save_user_def save_todo_def
  delete_user_row_def delete_todo_row_def

section \<open>Facts about the operations\<close>

lemma add_user_fresh:
  "add_user d pid nm pw adm = Inr d' \<Longrightarrow> pid \<notin> public_id ` set (users d)"
  by (auto simp: add_user_def split: if_splits)

lemma add_user_Inr:
  "pid \<notin> public_id ` set (users d) \<Longrightarrow>
   add_user d pid nm pw adm = Inr (d\<lparr>users := users d @
      [\<lparr>uid = next_id (map uid (users d)), public_id = pid, name = nm,
        password = pw, admin = adm\<rparr>]\<rparr>)"
  by (auto simp: add_user_def)

lemma add_user_todos:
  "add_user d pid nm pw adm = Inr d' \<Longrightarrow> todos d' = todos d"
  by (auto simp: add_user_def split: if_splits)

text \<open>
  Writing back a row keyed by its id leaves the other rows as they are, and the row
  itself is replaced when the key is unique.
\<close>

lemma map_replace_same_key:
  "(\<And>x. x \<in> set xs \<Longrightarrow> i x = i r \<Longrightarrow> k x = k r) \<Longrightarrow>
   map k (map (\<lambda>x. if i x = i r then r else x) xs) = map k xs"
  by (induction xs) auto

lemma find_replace_row:
  assumes "distinct (map i xs)" and "r0 \<in> set xs" and "i r = i r0"
  shows "map (\<lambda>x. if i x = i r then r else x) xs = map (\<lambda>x. if x = r0 then r else x) xs"
proof -
  have "\<And>x. x \<in> set xs \<Longrightarrow> (i x = i r) = (x = r0)"
    using assms by (metis distinct_map inj_onD)
  then show ?thesis by (simp cong: map_cong)
qed

section \<open>The invariant is kept\<close>

lemma wf_empty_db: "wf_db empty_db"
  by (simp add: wf_db_def empty_db_def)

lemma wf_add_user:
  "wf_db d \<Longrightarrow> add_user d pid nm pw adm = Inr d' \<Longrightarrow> wf_db d'"
  by (auto simp: wf_db_def add_user_def sorted_wrt_append_next_id split: if_splits)

lemma wf_add_todo: "wf_db d \<Longrightarrow> wf_db (add_todo d owner descr done)"
  by (auto simp: wf_db_def add_todo_def sorted_wrt_append_next_id)

lemma wf_save_user:
  assumes "wf_db d" and "\<And>x. x \<in> set (users d) \<Longrightarrow> uid x = uid r \<Longrightarrow> public_id x = public_id r"
  shows "wf_db (save_user d r)"
proof -
  let ?xs = "map (\<lambda>x. if uid x = uid r then r else x) (users d)"
  have u: "map uid ?xs = map uid (users d)"
    by (rule map_replace_same_key) simp
  have p: "map public_id ?xs = map public_id (users d)"
    by (rule map_replace_same_key) (rule assms(2))
  have "users (save_user d r) = ?xs" and "todos (save_user d r) = todos d"
    by (simp_all add: save_user_def)
  with assms(1) u p show ?thesis unfolding wf_db_def by (simp only:)
qed

lemma wf_save_todo: "wf_db d \<Longrightarrow> wf_db (save_todo d t)"
proof -
  let ?xs = "map (\<lambda>x. if tid x = tid t then t else x) (todos d)"
  have u: "map tid ?xs = map tid (todos d)"
    by (rule map_replace_same_key) simp
  have "todos (save_todo d t) = ?xs" and "users (save_todo d t) = users d"
    by (simp_all add: save_todo_def)
  with u show "wf_db d \<Longrightarrow> wf_db (save_todo d t)" unfolding wf_db_def by (simp only:)
qed

lemma wf_delete_user_row: "wf_db d \<Longrightarrow> wf_db (delete_user_row d r)"
  by (simp add: wf_db_def delete_user_row_def sorted_wrt_map_filter distinct_map_filter)

lemma wf_delete_todo_row: "wf_db d \<Longrightarrow> wf_db (delete_todo_row d t)"
  by (simp add: wf_db_def delete_todo_row_def sorted_wrt_map_filter)

lemmas wf_store_ops [intro] = wf_add_user wf_add_todo wf_save_todo wf_delete_user_row
  wf_delete_todo_row

section \<open>Lookups in a well-formed store\<close>

lemma wf_uid_distinct: "wf_db d \<Longrightarrow> distinct (map uid (users d))"
  by (simp add: wf_db_def strict_sorted_iff)

lemma wf_tid_distinct: "wf_db d \<Longrightarrow> distinct (map tid (todos d))"
  by (simp add: wf_db_def strict_sorted_iff)

lemma wf_find_public_id:
  "wf_db d \<Longrightarrow> r \<in> set (users d) \<Longrightarrow> find (\<lambda>x. public_id x = public_id r) (users d) = Some r"
  by (rule find_key_unique) (simp_all add: wf_db_def)

lemma wf_save_user_row:
  assumes "wf_db d" and "r0 \<in> set (users d)" and "uid r = uid r0" and "public_id r = public_id r0"
  shows "wf_db (save_user d r)"
proof (rule wf_save_user [OF assms(1)])
  fix x assume "x \<in> set (users d)" and "uid x = uid r"
  with assms have "x = r0" by (metis wf_uid_distinct distinct_map inj_onD)
  with assms(4) show "public_id x = public_id r" by simp
qed

lemma save_user_replaces:
  assumes "wf_db d" and "r0 \<in> set (users d)" and "uid r = uid r0"
  shows "users (save_user d r) = map (\<lambda>x. if x = r0 then r else x) (users d)"
  using find_replace_row [OF wf_uid_distinct [OF assms(1)] assms(2,3)]
  by (simp add: save_user_def)

lemma save_todo_replaces:
  assumes "wf_db d" and "t0 \<in> set (todos d)" and "tid t = tid t0"
  shows "todos (save_todo d t) = map (\<lambda>x. if x = t0 then t else x) (todos d)"
  using find_replace_row [OF wf_tid_distinct [OF assms(1)] assms(2,3)]
  by (simp add: save_todo_def)

end
