(* ===== verification/Http.thy ===== *)
theory Http
  imports Store
begin

text \<open>
  What a request handler of \<^verbatim>\<open>src/api.py\<close> receives and returns.  A response is
  a status, a body (the text of \<^verbatim>\<open>make_response\<close> or the payload of
  \<^verbatim>\<open>jsonify\<close>) and the extra headers the code sets.  The status constants come from
  \<^verbatim>\<open>settings.py\<close>, which is not part of the sources: their values are the numbers
  their names carry.  The three error views (\<^verbatim>\<open>not_found\<close>,
  \<^verbatim>\<open>internal_error\<close>, \<^verbatim>\<open>not_allowed\<close>) are constant responses.

  A request is its method, its path split at \<^verbatim>\<open>/\<close>, its Basic credentials
  (\<^verbatim>\<open>request.authorization\<close>), its \<^verbatim>\<open>X-Access-Token\<close> header and its parsed
  JSON body.  What the program draws from its environment (the signing key read at start
  up, the clock, a random UUID, the random salt of a password hash) is the record
  \<open>env\<close>, an explicit input of every step.
\<close>

definition STATUS_CODE_200_SUCCESS :: nat where "STATUS_CODE_200_SUCCESS = 200"
definition STATUS_CODE_201_CREATE :: nat where "STATUS_CODE_201_CREATE = 201"
definition STATUS_CODE_202_ACCEPT :: nat where "STATUS_CODE_202_ACCEPT = 202"
definition STATUS_CODE_204_NOTCONTENT :: nat where "STATUS_CODE_204_NOTCONTENT = 204"
definition STATUS_CODE_401_UNATHORIZATED :: nat where "STATUS_CODE_401_UNATHORIZATED = 401"
definition STATUS_CODE_404_NOTFOUND :: nat where "STATUS_CODE_404_NOTFOUND = 404"
definition STATUS_CODE_405_NOTALLOWED :: nat where "STATUS_CODE_405_NOTALLOWED = 405"
definition STATUS_CODE_500_INTERNALERROR :: nat where "STATUS_CODE_500_INTERNALERROR = 500"

datatype body = Text string | Json jval

record response =
  status :: nat
  body :: body
  headers :: "(string \<times> string) list"

text \<open>\<^verbatim>\<open>jsonify(obj), code\<close>: a JSON body and no extra header.\<close>

definition json_resp :: "jval \<Rightarrow> nat \<Rightarrow> response" where
  "json_resp v code = \<lparr>status = code, body = Json v, headers = []\<rparr>"

definition not_found :: response where
  "not_found = json_resp (JObj [(''OPS'', JStr ''Route not found!'')]) STATUS_CODE_404_NOTFOUND"

definition internal_error :: response where
  "internal_error = json_resp (JObj [(''ERROR'', JStr ''INTERNAL ERROR!'')]) STATUS_CODE_500_INTERNALERROR"

definition not_allowed :: response where
  "not_allowed = json_resp (JObj [(''FAILED'', JStr ''METHOD NOT ALLOWED!'')]) STATUS_CODE_405_NOTALLOWED"

text \<open>
  werkzeug's default answer to the \<open>BadRequest\<close> exception (no handler for 400 is
  registered): status 400 and an HTML page, whose text is abbreviated here.
\<close>

definition bad_request :: response where
  "bad_request = \<lparr>status = 400, body = Text ''400 Bad Request'', headers = []\<rparr>"

text \<open>
  The answer to an exception a view raised: \<open>BadRequest\<close> is an HTTP exception
  Flask turns into its own 400 answer; every other exception reaches
  \<^verbatim>\<open>@app.errorhandler(500)\<close>.
\<close>

definition error_response :: "py_exn \<Rightarrow> response" where
  "error_response ex = (if ex = BadRequest then bad_request else internal_error)"

datatype http_method = GET | POST | PUT | DELETE | PATCH

text \<open>
  The body of a request as \<^verbatim>\<open>request.get_json()\<close> sees it: not declared as JSON,
  declared as JSON but malformed, or a parsed JSON value.
\<close>

datatype json_payload = NotJson | MalformedJson | JsonBody jval

text \<open>
  \<^verbatim>\<open>request.get_json()\<close>: \<^verbatim>\<open>None\<close> for a body that is not declared as JSON
  (werkzeug before 2.3, the versions that still accept \<^verbatim>\<open>method='sha256'\<close> in
  \<^verbatim>\<open>generate_password_hash\<close>; later ones raise 415), \<open>BadRequest\<close> for a
  malformed one.
\<close>

definition get_json :: "json_payload \<Rightarrow> jval option result" where
  "get_json p = (case p of NotJson \<Rightarrow> Inr None | MalformedJson \<Rightarrow> Inl BadRequest
                            | JsonBody v \<Rightarrow> Inr (Some v))"

record request =
  req_method :: http_method
  path :: "string list"
  authorization :: "(string \<times> string) option"
  access_token :: "access_token option"
  json_body :: json_payload

record env =
  secret_key :: secret
  clock :: int
  fresh_uuid :: string
  fresh_salt :: salt

text \<open>
  A view of the program: the current user found by \<^verbatim>\<open>token_required\<close> (or
  \<^verbatim>\<open>None\<close>), then the database; it returns a response and the committed database,
  or the exception it raised.
\<close>

type_synonym view = "user_row option \<Rightarrow> db \<Rightarrow> (response \<times> db) result"

text \<open>
  A view whose first statement is \<^verbatim>\<open>data = request.get_json()\<close>, given the
  parsed body.  (\<^verbatim>\<open>update_user\<close> runs a query first, which has no effect.)
\<close>

definition with_json :: "json_payload \<Rightarrow> (jval option \<Rightarrow> view) \<Rightarrow> view" where
  "with_json p f cu d = bind_r (get_json p) (\<lambda>data. f data cu d)"

text \<open>An environment used by the examples.\<close>

definition demo_env :: env where
  "demo_env = \<lparr>secret_key = ''k3y'', clock = 1700000000, fresh_uuid = ''0f9e-new'', fresh_salt = 99\<rparr>"

lemmas status_codes [simp] = STATUS_CODE_200_SUCCESS_def STATUS_CODE_201_CREATE_def
  STATUS_CODE_202_ACCEPT_def STATUS_CODE_204_NOTCONTENT_def STATUS_CODE_401_UNATHORIZATED_def
  STATUS_CODE_404_NOTFOUND_def STATUS_CODE_405_NOTALLOWED_def STATUS_CODE_500_INTERNALERROR_def

lemma json_resp_status [simp]: "status (json_resp v code) = code"
  by (simp add: json_resp_def)

lemma error_views_status [simp]:
  "status not_found = 404" "status internal_error = 500" "status not_allowed = 405"
  "status bad_request = 400"
  by (simp_all add: not_found_def internal_error_def not_allowed_def bad_request_def)

lemma error_response_simps [simp]:
  "error_response BadRequest = bad_request"
  "ex \<noteq> BadRequest \<Longrightarrow> error_response ex = internal_error"
  by (simp_all add: error_response_def)

lemma with_json_simps [simp]:
  "with_json (JsonBody v) f cu d = f (Some v) cu d"
  "with_json NotJson f cu d = f None cu d"
  "with_json MalformedJson f cu d = Inl BadRequest"
  by (simp_all add: with_json_def get_json_def)

lemma with_json_Inr: "with_json p f cu d = Inr r \<Longrightarrow> \<exists>data. f data cu d = Inr r"
  by (cases p) auto

end
