(* ===== verification/Auth.thy ===== *)
theory Auth
  imports Http
begin

text \<open>
  Authentication in \<^verbatim>\<open>src/api.py\<close>: the \<^verbatim>\<open>/login\<close> view, which checks Basic
  credentials against the user table and issues a signed token carrying the user's public
  id and an expiry 3600 minutes ahead, and the decorator \<^verbatim>\<open>token_required\<close>,
  which reads the \<^verbatim>\<open>X-Access-Token\<close> header, decodes it, looks the public id up and
  calls the wrapped view with the user found (or \<^verbatim>\<open>None\<close>).
\<close>

definition login_failed :: response where
  "login_failed = \<lparr>status = STATUS_CODE_401_UNATHORIZATED, body = Text ''FAILED: Could not verify'',
     headers = [(''WWW-Authenticate'', ''Basic realm=\"Login required!\"'')]\<rparr>"

definition no_user_found :: response where
  "no_user_found = \<lparr>status = STATUS_CODE_204_NOTCONTENT, body = Text ''FAILED: No user found'',
     headers = [(''WWW-Authenticate'', ''Basic realm=\"Login required!\"'')]\<rparr>"

text \<open>\<^verbatim>\<open>datetime.timedelta(minutes=3600)\<close> in seconds.\<close>

definition token_lifetime :: int where
  "token_lifetime = 3600 * 60"

text \<open>The token \<^verbatim>\<open>jwt.encode\<close> produces in \<^verbatim>\<open>login\<close>.\<close>

definition issued_token :: "env \<Rightarrow> user_row \<Rightarrow> token" where
  "issued_token e user =
     jwt_encode \<lparr>claim_public_id = Some (public_id user), claim_exp = Some (clock e + token_lifetime)\<rparr>
       (secret_key e)"

definition login :: "env \<Rightarrow> (string \<times> string) option \<Rightarrow> db \<Rightarrow> response" where
  "login e auth d =
     (case auth of
        None \<Rightarrow> login_failed
      | Some (username, pw) \<Rightarrow>
          if username = [] \<or> pw = [] then login_failed
          else (case find (\<lambda>u. name u = Some username) (users d) of
                  None \<Rightarrow> no_user_found
                | Some user \<Rightarrow>
                    if check_password_hash (password user) pw
                    then json_resp (JObj [(''token'', JToken (issued_token e user))])
                           STATUS_CODE_200_SUCCESS
                    else login_failed))"

definition token_missing :: response where
  "token_missing = json_resp (JObj [(''message'', JStr ''Token is missing!'')]) STATUS_CODE_200_SUCCESS"

definition token_invalid :: response where
  "token_invalid = json_resp (JObj [(''message'', JStr ''Token is invalid!'')]) STATUS_CODE_401_UNATHORIZATED"

text \<open>
  The decorator: no header gives the "missing" message (with the default status 200,
  as \<^verbatim>\<open>jsonify\<close> without a code); a token that does not decode, or whose claims
  have no \<^verbatim>\<open>public_id\<close> (the \<^verbatim>\<open>KeyError\<close> caught by \<^verbatim>\<open>except Exception\<close>),
  gives 401; otherwise the view runs with the first user of that public id, \<^verbatim>\<open>None\<close>
  when there is none.  An exception of the view is not caught here.
\<close>

definition token_required :: "view \<Rightarrow> env \<Rightarrow> access_token option \<Rightarrow> db \<Rightarrow> (response \<times> db) result" where
  "token_required fn e hdr d =
     (case hdr of
        None \<Rightarrow> Inr (token_missing, d)
      | Some token \<Rightarrow>
          (case jwt_decode (clock e) token (secret_key e) of
             None \<Rightarrow> Inr (token_invalid, d)
           | Some data \<Rightarrow>
               (case claim_public_id data of
                  None \<Rightarrow> Inr (token_invalid, d)
                | Some pid \<Rightarrow> fn (find (\<lambda>u. public_id u = pid) (users d)) d)))"

text \<open>
  The header carries a token that decodes under the application key at the current
  time and names a public id: the case in which \<^verbatim>\<open>token_required\<close> calls the
  view.
\<close>

definition token_accepted :: "env \<Rightarrow> access_token option \<Rightarrow> bool" where
  "token_accepted e hdr =
     (case hdr of
        None \<Rightarrow> False
      | Some t \<Rightarrow> (case jwt_decode (clock e) t (secret_key e) of
                    None \<Rightarrow> False
                  | Some c \<Rightarrow> claim_public_id c \<noteq> None))"

section \<open>Lemmas\<close>

lemma login_issues:
  "username \<noteq> [] \<Longrightarrow> pw \<noteq> [] \<Longrightarrow> find (\<lambda>u. name u = Some username) (users d) = Some user \<Longrightarrow>
   check_password_hash (password user) pw \<Longrightarrow>
   login e (Some (username, pw)) d =
     json_resp (JObj [(''token'', JToken (issued_token e user))]) STATUS_CODE_200_SUCCESS"
  by (simp add: login_def)

lemma token_required_decoded:
  "jwt_decode (clock e) t (secret_key e) = Some c \<Longrightarrow> claim_public_id c = Some pid \<Longrightarrow>
   token_required fn e (Some t) d = fn (find (\<lambda>u. public_id u = pid) (users d)) d"
  by (simp add: token_required_def)

lemma token_required_accepted:
  assumes "token_accepted e hdr" and "\<And>cu. fn cu d = r"
  shows "token_required fn e hdr d = r"
  using assms by (auto simp: token_accepted_def token_required_def split: option.splits)

text \<open>
  A property of the database that the wrapped view keeps, whatever user it is given, is
  kept by the decorated view: every other branch returns the database untouched.
\<close>

lemma token_required_runs_view:
  "token_accepted e hdr \<Longrightarrow> \<exists>cu. \<forall>fn. token_required fn e hdr d = fn cu d"
  by (auto simp: token_accepted_def token_required_def split: option.splits)

lemma token_required_keeps:
  assumes "token_required fn e hdr d = Inr (resp, d')" and "P d"
    and "\<And>cu resp d'. fn cu d = Inr (resp, d') \<Longrightarrow> P d'"
  shows "P d'"
  using assms by (auto simp: token_required_def split: option.splits)

lemma token_required_status_cases:
  "token_required fn e hdr d = Inr (resp, d') \<Longrightarrow>
   status resp = 200 \<or> status resp = 401 \<or> (\<exists>cu. fn cu d = Inr (resp, d'))"
  by (auto simp: token_required_def token_missing_def token_invalid_def split: option.splits)

section \<open>Properties of authentication\<close>

text \<open>
  C2. A token issued by \<^verbatim>\<open>login\<close> is refused by \<^verbatim>\<open>token_required\<close> once the
  clock has reached its expiry, and at any time when the signing key differs: the
  response is "Token is invalid!" with status 401, the wrapped view does not run and the
  database is unchanged.
\<close>

theorem issued_token_rejected_expired_or_foreign:
  assumes "clock e + token_lifetime \<le> clock e' \<or> secret_key e' \<noteq> secret_key e"
  shows "token_required fn e' (Some (Tok (issued_token e user))) d = Inr (token_invalid, d)"
  using assms by (auto simp: token_required_def issued_token_def jwt_encode_def)

theorem issued_token_rejected_witness:
  "clock demo_env + token_lifetime \<le> clock (demo_env\<lparr>clock := 1700216000\<rparr>) \<and>
   token_required (\<lambda>cu d. Inr (json_resp JNull 200, d)) (demo_env\<lparr>clock := 1700216000\<rparr>)
     (Some (Tok (issued_token demo_env demo_alice))) demo_db = Inr (token_invalid, demo_db)"
proof -
  have h: "clock demo_env + token_lifetime \<le> clock (demo_env\<lparr>clock := 1700216000\<rparr>)"
    by (simp add: demo_env_def token_lifetime_def)
  from issued_token_rejected_expired_or_foreign [OF disjI1 [OF h]] h show ?thesis by blast
qed

text \<open>
  C15. Every failing branch of \<^verbatim>\<open>login\<close>: no Basic credentials, an empty name or an
  empty password give 401 "Could not verify"; a name no account has gives status 204 "No
  user found"; the first account of that name rejecting the password gives 401.  No
  branch but the successful one issues a token.
\<close>

theorem login_error_branches:
  "login e None d = login_failed \<and>
   login e (Some ([], pw)) d = login_failed \<and>
   login e (Some (username, [])) d = login_failed \<and>
   (username \<noteq> [] \<and> pw \<noteq> [] \<and> find (\<lambda>u. name u = Some username) (users d) = None \<longrightarrow>
      login e (Some (username, pw)) d = no_user_found) \<and>
   (username \<noteq> [] \<and> pw \<noteq> [] \<and> find (\<lambda>u. name u = Some username) (users d) = Some user \<and>
      \<not> check_password_hash (password user) pw \<longrightarrow>
      login e (Some (username, pw)) d = login_failed)"
  by (simp add: login_def)

theorem login_error_branches_witness:
  "login demo_env (Some (''carol'', ''pw'')) demo_db = no_user_found \<and>
   login demo_env (Some (''alice'', ''wrong'')) demo_db = login_failed \<and>
   status no_user_found = 204 \<and> status login_failed = 401"
proof -
  have carol: "find (\<lambda>u. name u = Some ''carol'') (users demo_db) = None"
    and alice: "find (\<lambda>u. name u = Some ''alice'') (users demo_db) = Some demo_alice"
    and wrong: "\<not> check_password_hash (password demo_alice) ''wrong''"
    by (simp_all add: demo_store_defs)
  have "login demo_env (Some (''carol'', ''pw'')) demo_db = no_user_found"
    using login_error_branches [of demo_env demo_db "''pw''" "''carol''"] carol by simp
  moreover have "login demo_env (Some (''alice'', ''wrong'')) demo_db = login_failed"
    using login_error_branches [of demo_env demo_db "''wrong''" "''alice''" demo_alice] alice wrong
    by simp
  ultimately show ?thesis by (simp add: no_user_found_def login_failed_def)
qed

text \<open>
  C16. The token \<^verbatim>\<open>login\<close> returns is signed with the application key, names an
  account of the table, and expires 216000 seconds after issue: \<^verbatim>\<open>timedelta(minutes=3600)\<close>
  is 60 hours, not the one hour the comment above \<^verbatim>\<open>login\<close> announces.
\<close>

theorem login_token_lifetime:
  assumes "login e auth d = json_resp (JObj [(''token'', JToken (JWT c k))]) code"
  shows "claim_exp c = Some (clock e + 216000) \<and> k = secret_key e \<and>
    (\<exists>user \<in> set (users d). claim_public_id c = Some (public_id user))"
  using assms
  by (auto simp: login_def login_failed_def no_user_found_def json_resp_def issued_token_def
      jwt_encode_def token_lifetime_def split: option.splits if_splits prod.splits
      dest: find_Some_prop)

theorem login_token_lifetime_witness:
  "login demo_env (Some (''alice'', ''s3cret'')) demo_db =
     json_resp (JObj [(''token'', JToken (JWT \<lparr>claim_public_id = Some ''8c1f-alice'',
       claim_exp = Some 1700216000\<rparr> ''k3y''))]) 200 \<and>
   1700216000 = clock demo_env + 216000"
proof -
  have h: "login demo_env (Some (''alice'', ''s3cret'')) demo_db =
     json_resp (JObj [(''token'', JToken (JWT \<lparr>claim_public_id = Some ''8c1f-alice'',
       claim_exp = Some 1700216000\<rparr> ''k3y''))]) 200"
    by (simp add: login_def demo_store_defs demo_env_def issued_token_def jwt_encode_def
        token_lifetime_def)
  from login_token_lifetime [OF h] h show ?thesis by simp
qed

end
