(* ===== verification/Users.thy ===== *)
theory Users
  imports Auth
begin

text \<open>
  The account views of \<^verbatim>\<open>src/api.py\<close>: \<^verbatim>\<open>get_all_users\<close>,
  \<^verbatim>\<open>get_one_user\<close>, \<^verbatim>\<open>create_new_user\<close>, \<^verbatim>\<open>update_user\<close> and
  \<^verbatim>\<open>delete_user\<close>, each a \<open>view\<close> once its route arguments, its request body and
  the environment are given.  Each returns the response and the database after its
  \<^verbatim>\<open>commit\<close>, or the exception it raised (then nothing is committed: the session is
  rolled back when the request ends).

  Two statements of the source do nothing: \<^verbatim>\<open>jsonify(..), 204\<close> without
  \<^verbatim>\<open>return\<close> in \<^verbatim>\<open>get_all_users\<close> and \<^verbatim>\<open>update_user\<close>; and the test
  \<^verbatim>\<open>if not user\<close> of \<^verbatim>\<open>get_one_user\<close> is on a query object, which is always
  true in Python.  The model has no branch for them.

  A value written to a column is converted when it is assigned (\<open>text_col\<close>,
  \<open>bool_col\<close>) rather than at the flush: every exception ends in the same 500
  response with nothing committed, so the place where it is raised is not observable.
\<close>

definition user_json :: "user_row \<Rightarrow> jval" where
  "user_json u =
     JObj [(''name'', jtext (name u)), (''public_id'', JStr (public_id u)),
           (''password'', JHash (password u)), (''admin'', JBool (admin u))]"

definition get_all_users :: "user_row option \<Rightarrow> db \<Rightarrow> (response \<times> db) result" where
  "get_all_users current_user d =
     (let output = map user_json (users d)
      in Inr (json_resp (JObj [(''Users'', JArr output)]) STATUS_CODE_200_SUCCESS, d))"

definition get_one_user :: "user_row option \<Rightarrow> string \<Rightarrow> db \<Rightarrow> (response \<times> db) result" where
  "get_one_user current_user user_id_path d =
     (let output = map user_json (filter (\<lambda>u. public_id u = user_id_path) (users d))
      in Inr (json_resp (JObj [(''message'', JArr output)]) STATUS_CODE_200_SUCCESS, d))"

definition create_new_user ::
  "user_row option \<Rightarrow> env \<Rightarrow> jval option \<Rightarrow> db \<Rightarrow> (response \<times> db) result" where
  "create_new_user current_user e data d =
     bind_r (subscript data ''password'') (\<lambda>pw.
     bind_r (str_arg pw) (\<lambda>pw_str.
     (let hashed_password = generate_password_hash (fresh_salt e) pw_str in
     bind_r (subscript data ''name'') (\<lambda>nm.
     bind_r (text_col nm) (\<lambda>nm_col.
     bind_r (add_user d (fresh_uuid e) nm_col hashed_password False) (\<lambda>d'.
     Inr (json_resp (JObj [(''message'', JStr ''The user has been created!'')])
            STATUS_CODE_201_CREATE, d')))))))"

text \<open>
  \<^verbatim>\<open>try: if data[k]: <assign> except KeyError: pass\<close>: a missing key skips the field,
  a falsy value skips it, any other exception propagates.  The state threaded through is
  the ORM object, \<^verbatim>\<open>None\<close> when the lookup found nothing.
\<close>

definition set_if_given ::
  "jval option \<Rightarrow> string \<Rightarrow> (jval \<Rightarrow> 'a \<Rightarrow> 'a result) \<Rightarrow> 'a \<Rightarrow> 'a result" where
  "set_if_given data k assign x =
     (case subscript data k of
        Inl (KeyError _) \<Rightarrow> Inr x
      | Inl ex \<Rightarrow> Inl ex
      | Inr v \<Rightarrow> if truthy v then assign v x else Inr x)"

definition set_name :: "jval \<Rightarrow> user_row option \<Rightarrow> user_row option result" where
  "set_name v user =
     (case user of
        None \<Rightarrow> Inl AttributeError
      | Some u \<Rightarrow> bind_r (text_col v) (\<lambda>t. Inr (Some (u\<lparr>name := t\<rparr>))))"

definition set_password :: "env \<Rightarrow> jval \<Rightarrow> user_row option \<Rightarrow> user_row option result" where
  "set_password e v user =
     bind_r (str_arg v) (\<lambda>pw.
       (case user of
          None \<Rightarrow> Inl AttributeError
        | Some u \<Rightarrow> Inr (Some (u\<lparr>password := generate_password_hash (fresh_salt e) pw\<rparr>))))"

definition set_admin :: "jval \<Rightarrow> user_row option \<Rightarrow> user_row option result" where
  "set_admin v user =
     (case user of
        None \<Rightarrow> Inl AttributeError
      | Some u \<Rightarrow> (case bool_col v of
                    Inr (Some b) \<Rightarrow> Inr (Some (u\<lparr>admin := b\<rparr>))
                  | _ \<Rightarrow> Inl DbError))"

definition commit_user :: "db \<Rightarrow> user_row option \<Rightarrow> db" where
  "commit_user d user = (case user of None \<Rightarrow> d | Some u \<Rightarrow> save_user d u)"

definition update_user ::
  "user_row option \<Rightarrow> string \<Rightarrow> env \<Rightarrow> jval option \<Rightarrow> db \<Rightarrow> (response \<times> db) result" where
  "update_user current_user user_id_path e data d =
     (let user = find (\<lambda>u. public_id u = user_id_path) (users d) in
      bind_r (set_if_given data ''name'' set_name user) (\<lambda>user.
      bind_r (set_if_given data ''password'' (set_password e) user) (\<lambda>user.
      bind_r (set_if_given data ''admin'' set_admin user) (\<lambda>user.
      Inr (json_resp (JObj [(''message'', JStr (''User: '' @ user_id_path @ '' was successfull updated!''))])
             STATUS_CODE_201_CREATE,
           commit_user d user)))))"

definition delete_user :: "user_row option \<Rightarrow> string \<Rightarrow> db \<Rightarrow> (response \<times> db) result" where
  "delete_user current_user user_id_path d =
     (case find (\<lambda>u. public_id u = user_id_path) (users d) of
        None \<Rightarrow> Inl UnmappedInstanceError
      | Some user \<Rightarrow>
          Inr (json_resp (JObj [(''message'', JStr (''User: '' @ user_id_path @ '' has been deleted!''))])
                 STATUS_CODE_202_ACCEPT,
               delete_user_row d user))"

text \<open>Two ORM objects are the same row: same id, same public id.\<close>

definition same_key :: "user_row option \<Rightarrow> user_row option \<Rightarrow> bool" where
  "same_key a b \<longleftrightarrow> map_option (\<lambda>u. (uid u, public_id u)) a = map_option (\<lambda>u. (uid u, public_id u)) b"

lemmas users_view_defs [handler_simps] = get_all_users_def get_one_user_def create_new_user_def
  update_user_def delete_user_def

section \<open>The field setters\<close>

text \<open>
  A property of the ORM object that every assignment keeps is kept by
  \<open>set_if_given\<close>; the three setters keep the row's id and public id.
\<close>

lemma set_if_given_keeps:
  assumes "set_if_given data k assign x = Inr y" and "P x"
    and "\<And>v x y. assign v x = Inr y \<Longrightarrow> P x \<Longrightarrow> P y"
  shows "P y"
  using assms by (auto simp: set_if_given_def split: sum.splits py_exn.splits if_splits)

lemma setters_same_key:
  "set_name v x = Inr y \<Longrightarrow> same_key x y"
  "set_password e v x = Inr y \<Longrightarrow> same_key x y"
  "set_admin v x = Inr y \<Longrightarrow> same_key x y"
  by (auto simp: same_key_def set_name_def set_password_def set_admin_def
      split: option.splits sum.splits)

lemma set_if_given_same_key:
  "set_if_given data k assign x = Inr y \<Longrightarrow> same_key x0 x \<Longrightarrow>
   (\<And>v x y. assign v x = Inr y \<Longrightarrow> same_key x y) \<Longrightarrow> same_key x0 y"
  by (rule set_if_given_keeps [where P = "same_key x0"]) (auto simp: same_key_def)

lemma set_if_given_absent:
  "subscript data k = Inl (KeyError k) \<Longrightarrow> set_if_given data k assign x = Inr x"
  by (simp add: set_if_given_def)

lemma set_if_given_falsy:
  "subscript data k = Inr v \<Longrightarrow> \<not> truthy v \<Longrightarrow> set_if_given data k assign x = Inr x"
  by (simp add: set_if_given_def)

lemma set_if_given_truthy:
  "subscript data k = Inr v \<Longrightarrow> truthy v \<Longrightarrow> set_if_given data k assign x = assign v x"
  by (simp add: set_if_given_def)

lemma set_if_given_skips:
  "obj_lookup kvs k = None \<or> (\<exists>v. obj_lookup kvs k = Some v \<and> \<not> truthy v) \<Longrightarrow>
   set_if_given (Some (JObj kvs)) k assign x = Inr x"
  by (auto simp: set_if_given_def)

section \<open>Every account view keeps the store well formed\<close>

lemma set_if_given_setters_same_key:
  "set_if_given data k set_name x = Inr y \<Longrightarrow> same_key x y"
  "set_if_given data k (set_password e) x = Inr y \<Longrightarrow> same_key x y"
  "set_if_given data k set_admin x = Inr y \<Longrightarrow> same_key x y"
  by (rule set_if_given_same_key [where x0 = x], assumption, simp add: same_key_def,
      rule setters_same_key, assumption)+

lemma update_user_commits:
  assumes "update_user cu x e data d = Inr (resp, d')"
  shows "\<exists>user. d' = commit_user d user \<and> same_key (find (\<lambda>u. public_id u = x) (users d)) user"
  using assms
  by (auto simp: update_user_def Let_def same_key_def dest!: set_if_given_setters_same_key)

lemma commit_user_wf:
  assumes "wf_db d" and "same_key (find P (users d)) user"
  shows "wf_db (commit_user d user)"
proof (cases user)
  case None
  with assms show ?thesis by (simp add: commit_user_def)
next
  case (Some r)
  with assms(2) obtain r0 where r0: "find P (users d) = Some r0"
    and "uid r = uid r0" and "public_id r = public_id r0"
    by (auto simp: same_key_def)
  moreover from r0 have "r0 \<in> set (users d)" by (blast dest: find_Some_prop)
  ultimately show ?thesis using assms(1) Some
    by (simp add: commit_user_def wf_save_user_row)
qed

lemma users_views_wf:
  assumes "wf_db d"
  shows "get_all_users cu d = Inr (resp, d') \<Longrightarrow> wf_db d'"
    and "get_one_user cu x d = Inr (resp, d') \<Longrightarrow> wf_db d'"
    and "create_new_user cu e data d = Inr (resp, d') \<Longrightarrow> wf_db d'"
    and "update_user cu x e data d = Inr (resp, d') \<Longrightarrow> wf_db d'"
    and "delete_user cu x d = Inr (resp, d') \<Longrightarrow> wf_db d'"
  using assms
  by (auto simp: get_all_users_def get_one_user_def create_new_user_def delete_user_def Let_def
      split: option.splits dest: wf_add_user update_user_commits commit_user_wf)

lemma users_views_status:
  shows "get_all_users cu d = Inr (resp, d') \<Longrightarrow> status resp = 200"
    and "get_one_user cu x d = Inr (resp, d') \<Longrightarrow> status resp = 200"
    and "create_new_user cu e data d = Inr (resp, d') \<Longrightarrow> status resp = 201"
    and "update_user cu x e data d = Inr (resp, d') \<Longrightarrow> status resp = 201"
    and "delete_user cu x d = Inr (resp, d') \<Longrightarrow> status resp = 202"
  by (auto simp: users_view_defs Let_def split: option.splits)

section \<open>Properties of the account views\<close>

text \<open>
  C4. A successful \<^verbatim>\<open>POST /users\<close> appends exactly one account to the table: its
  id is the next row id, its public id is the fresh UUID, which no existing account has,
  its password column is the salted hash of the password the body gave, and its admin
  flag is false whatever the body asked for.  The task table is untouched and the status
  is 201.
\<close>

theorem create_new_user_adds_account:
  assumes "create_new_user cu e data d = Inr (resp, d')"
  shows "\<exists>nm pw. subscript data ''password'' = Inr (JStr pw) \<and>
     users d' = users d @ [\<lparr>uid = next_id (map uid (users d)), public_id = fresh_uuid e,
       name = nm, password = generate_password_hash (fresh_salt e) pw, admin = False\<rparr>] \<and>
     fresh_uuid e \<notin> public_id ` set (users d) \<and> todos d' = todos d \<and> status resp = 201"
proof -
  from assms obtain pw pw_str nm nm_col where
      p: "subscript data ''password'' = Inr pw" and ps: "str_arg pw = Inr pw_str" and
      nc: "text_col nm = Inr nm_col" and
      a: "add_user d (fresh_uuid e) nm_col (generate_password_hash (fresh_salt e) pw_str) False = Inr d'" and
      r: "resp = json_resp (JObj [(''message'', JStr ''The user has been created!'')]) STATUS_CODE_201_CREATE"
    by (auto simp: create_new_user_def Let_def)
  from ps have "pw = JStr pw_str" by (simp add: str_arg_def split: jval.splits)
  moreover from a have "fresh_uuid e \<notin> public_id ` set (users d)" by (rule add_user_fresh)
  moreover from a have "d' = d\<lparr>users := users d @ [\<lparr>uid = next_id (map uid (users d)),
      public_id = fresh_uuid e, name = nm_col,
      password = generate_password_hash (fresh_salt e) pw_str, admin = False\<rparr>]\<rparr>"
    by (simp add: add_user_def split: if_splits)
  ultimately show ?thesis using p r by simp
qed

theorem create_new_user_adds_account_witness:
  "create_new_user None demo_env
     (Some (JObj [(''name'', JStr ''carol''), (''password'', JStr ''pw''), (''admin'', JBool True)]))
     demo_db =
   Inr (json_resp (JObj [(''message'', JStr ''The user has been created!'')]) 201,
        demo_db\<lparr>users := [demo_alice, demo_bob, \<lparr>uid = 3, public_id = ''0f9e-new'',
          name = Some ''carol'', password = PwHash 99 ''pw'', admin = False\<rparr>]\<rparr>) \<and>
   fresh_uuid demo_env \<notin> public_id ` set (users demo_db)"
proof -
  have h: "create_new_user None demo_env
     (Some (JObj [(''name'', JStr ''carol''), (''password'', JStr ''pw''), (''admin'', JBool True)]))
     demo_db =
   Inr (json_resp (JObj [(''message'', JStr ''The user has been created!'')]) 201,
        demo_db\<lparr>users := [demo_alice, demo_bob, \<lparr>uid = 3, public_id = ''0f9e-new'',
          name = Some ''carol'', password = PwHash 99 ''pw'', admin = False\<rparr>]\<rparr>)"
    by (simp add: create_new_user_def obj_lookup_def str_arg_def text_col_def add_user_def
        next_id_def generate_password_hash_def demo_store_defs demo_env_def)
  from create_new_user_adds_account [OF h] h show ?thesis by blast
qed

text \<open>
  C5. \<^verbatim>\<open>PUT /users/<id>\<close> with a body that gives a non-empty name and no truthy
  password or admin field changes the name of the account with that public id and
  nothing else: its password hash and admin flag, and every other account, stay as they
  were.
\<close>

theorem update_user_name_only:
  assumes wf: "wf_db d" and found: "find (\<lambda>u. public_id u = x) (users d) = Some u"
    and nm: "obj_lookup kvs ''name'' = Some (JStr n)" "n \<noteq> []"
    and pw: "obj_lookup kvs ''password'' = None \<or> (\<exists>v. obj_lookup kvs ''password'' = Some v \<and> \<not> truthy v)"
    and adm: "obj_lookup kvs ''admin'' = None \<or> (\<exists>v. obj_lookup kvs ''admin'' = Some v \<and> \<not> truthy v)"
  shows "update_user cu x e (Some (JObj kvs)) d =
     Inr (json_resp (JObj [(''message'', JStr (''User: '' @ x @ '' was successfull updated!''))])
            STATUS_CODE_201_CREATE,
          d\<lparr>users := map (\<lambda>y. if y = u then u\<lparr>name := Some n\<rparr> else y) (users d)\<rparr>)"
proof -
  let ?u' = "u\<lparr>name := Some n\<rparr>"
  have s1: "set_if_given (Some (JObj kvs)) ''name'' set_name (Some u) = Inr (Some ?u')"
    using nm by (simp add: set_if_given_def set_name_def)
  have s2: "set_if_given (Some (JObj kvs)) ''password'' (set_password e) (Some ?u') = Inr (Some ?u')"
    using pw by (rule set_if_given_skips)
  have s3: "set_if_given (Some (JObj kvs)) ''admin'' set_admin (Some ?u') = Inr (Some ?u')"
    using adm by (rule set_if_given_skips)
  from found have "u \<in> set (users d)" by (blast dest: find_Some_prop)
  from save_user_replaces [OF wf this, of ?u']
  have "commit_user d (Some ?u') = d\<lparr>users := map (\<lambda>y. if y = u then ?u' else y) (users d)\<rparr>"
    by (simp add: commit_user_def save_user_def)
  with found s1 s2 s3 show ?thesis by (simp add: update_user_def)
qed

theorem update_user_name_only_witness:
  "update_user None ''8c1f-alice'' demo_env (Some (JObj [(''name'', JStr ''alicia'')])) demo_db =
     Inr (json_resp (JObj [(''message'', JStr ''User: 8c1f-alice was successfull updated!'')]) 201,
          demo_db\<lparr>users := [demo_alice\<lparr>name := Some ''alicia''\<rparr>, demo_bob]\<rparr>)"
proof -
  have "wf_db demo_db" by (simp add: wf_db_def demo_store_defs)
  moreover have "find (\<lambda>u. public_id u = ''8c1f-alice'') (users demo_db) = Some demo_alice"
    by (simp add: demo_store_defs)
  ultimately have "update_user None ''8c1f-alice'' demo_env (Some (JObj [(''name'', JStr ''alicia'')])) demo_db =
     Inr (json_resp (JObj [(''message'', JStr (''User: '' @ ''8c1f-alice'' @ '' was successfull updated!''))])
            STATUS_CODE_201_CREATE,
          demo_db\<lparr>users := map (\<lambda>y. if y = demo_alice then demo_alice\<lparr>name := Some ''alicia''\<rparr> else y)
            (users demo_db)\<rparr>)"
    by (rule update_user_name_only) (simp_all add: obj_lookup_def)
  then show ?thesis by (simp add: demo_store_defs)
qed

text \<open>
  C12. \<^verbatim>\<open>GET /users\<close> answers 200 with one entry per account, and the entry of
  every account carries its stored password hash next to its public id.
\<close>

theorem get_all_users_exposes_password_hash:
  assumes "u \<in> set (users d)"
  shows "\<exists>out. get_all_users cu d = Inr (json_resp (JObj [(''Users'', JArr out)]) STATUS_CODE_200_SUCCESS, d) \<and>
    length out = length (users d) \<and>
    (\<exists>kvs. JObj kvs \<in> set out \<and> obj_lookup kvs ''public_id'' = Some (JStr (public_id u)) \<and>
       obj_lookup kvs ''password'' = Some (JHash (password u)))"
proof (intro exI conjI)
  show "get_all_users cu d = Inr (json_resp (JObj [(''Users'', JArr (map user_json (users d)))])
      STATUS_CODE_200_SUCCESS, d)"
    by (simp add: get_all_users_def)
  show "length (map user_json (users d)) = length (users d)" by simp
  from assms show "JObj [(''name'', jtext (name u)), (''public_id'', JStr (public_id u)),
      (''password'', JHash (password u)), (''admin'', JBool (admin u))] \<in> set (map user_json (users d))"
    by (auto simp: user_json_def)
qed (simp_all add: obj_lookup_def)

theorem get_all_users_exposes_password_hash_witness:
  "demo_alice \<in> set (users demo_db) \<and>
   (\<exists>out kvs. get_all_users None demo_db = Inr (json_resp (JObj [(''Users'', JArr out)]) 200, demo_db) \<and>
      JObj kvs \<in> set out \<and> obj_lookup kvs ''password'' = Some (JHash (PwHash 17 ''s3cret'')))"
proof -
  have h: "demo_alice \<in> set (users demo_db)" by (simp add: demo_db_def)
  have "password demo_alice = PwHash 17 ''s3cret''" by (simp add: demo_alice_def)
  with get_all_users_exposes_password_hash [OF h, of None] h show ?thesis by auto
qed

text \<open>
  C13. \<^verbatim>\<open>GET /users/<id>\<close> for a public id no account has answers 200 with an
  empty list: the "User not found" branch tests a query object, which is never false.
\<close>

theorem get_one_user_unknown_is_empty:
  assumes "\<forall>u \<in> set (users d). public_id u \<noteq> x"
  shows "get_one_user cu x d = Inr (json_resp (JObj [(''message'', JArr [])]) STATUS_CODE_200_SUCCESS, d)"
  using assms by (simp add: get_one_user_def filter_empty_conv)

theorem get_one_user_unknown_is_empty_witness:
  "get_one_user None ''nobody'' demo_db = Inr (json_resp (JObj [(''message'', JArr [])]) 200, demo_db)"
proof -
  have h: "\<forall>u \<in> set (users demo_db). public_id u \<noteq> ''nobody''" by (simp add: demo_store_defs)
  from get_one_user_unknown_is_empty [OF h] show ?thesis by simp
qed

text \<open>
  C18. \<^verbatim>\<open>PUT /users/<id>\<close> for a public id no account has, with a body giving no
  truthy name, password or admin field, reports "successfull updated" with status 201
  and changes nothing.
\<close>

theorem update_user_missing_account_reports_success:
  assumes "\<forall>u \<in> set (users d). public_id u \<noteq> x"
    and "\<forall>k \<in> {''name'', ''password'', ''admin''}. \<forall>v. obj_lookup kvs k = Some v \<longrightarrow> \<not> truthy v"
  shows "update_user cu x e (Some (JObj kvs)) d =
     Inr (json_resp (JObj [(''message'', JStr (''User: '' @ x @ '' was successfull updated!''))])
            STATUS_CODE_201_CREATE, d)"
proof -
  from assms(1) have "find (\<lambda>u. public_id u = x) (users d) = None" by (simp add: find_None_iff)
  moreover have skip: "set_if_given (Some (JObj kvs)) k a None = Inr None"
    if "k \<in> {''name'', ''password'', ''admin''}" for k and a :: "jval \<Rightarrow> user_row option \<Rightarrow> user_row option result"
    using assms(2) that by (metis option.exhaust set_if_given_skips)
  ultimately show ?thesis
    by (simp add: update_user_def commit_user_def skip [of "''name''"] skip [of "''password''"]
        skip [of "''admin''"])
qed

theorem update_user_missing_account_witness:
  "update_user None ''nobody'' demo_env (Some (JObj [])) demo_db =
     Inr (json_resp (JObj [(''message'', JStr ''User: nobody was successfull updated!'')]) 201, demo_db)"
proof -
  have "\<forall>u \<in> set (users demo_db). public_id u \<noteq> ''nobody''" by (simp add: demo_store_defs)
  from update_user_missing_account_reports_success [OF this, of "[]"] show ?thesis
    by (simp add: obj_lookup_def)
qed

end
