(* ===== verification/Todos.thy ===== *)
theory Todos
  imports Users
begin

text \<open>
  The task views of \<^verbatim>\<open>src/api.py\<close>: \<^verbatim>\<open>get_all_todo\<close>, \<^verbatim>\<open>get_one_todo\<close>,
  \<^verbatim>\<open>create_todo\<close>, \<^verbatim>\<open>update_todo\<close> and \<^verbatim>\<open>delete_todo\<close>, modelled as the
  account views are.  The source addresses tasks inconsistently, and the model keeps it:
  \<^verbatim>\<open>get_one_todo\<close> ignores its path argument and returns the first task of the
  current user; \<^verbatim>\<open>update_todo\<close> and \<^verbatim>\<open>delete_todo\<close> read the path argument as
  an owner id (\<^verbatim>\<open>filter_by(user_id=...)\<close>), not a task id.  They read it
  differently: \<^verbatim>\<open>update_todo\<close> calls \<^verbatim>\<open>int(todo_id)\<close> in Python
  (\<open>int_arg\<close>), while \<^verbatim>\<open>delete_todo\<close> passes the raw string, which SQLite
  compares with the INTEGER column under numeric affinity (\<open>sql_eq_int\<close>), so
  \<^verbatim>\<open>DELETE /todo/1.0\<close> selects owner 1 where \<^verbatim>\<open>PUT /todo/1.0\<close> raises.  The \<^verbatim>\<open>make_response\<close> of \<^verbatim>\<open>update_todo\<close> without
  \<^verbatim>\<open>return\<close> does nothing, and \<^verbatim>\<open>print(todo_id)\<close> is output only.
\<close>

definition todo_json :: "todo_row \<Rightarrow> jval" where
  "todo_json t =
     JObj [(''todo_id'', JNum (int (tid t))), (''description'', jtext (description t)),
           (''complete'', jbool (complete t))]"

definition get_all_todo :: "user_row option \<Rightarrow> db \<Rightarrow> (response \<times> db) result" where
  "get_all_todo current_user d =
     (let todo_data = map todo_json (todos d)
      in Inr (json_resp (JObj [(''all-to-do'', JArr todo_data)]) STATUS_CODE_200_SUCCESS, d))"

definition get_one_todo :: "user_row option \<Rightarrow> string \<Rightarrow> db \<Rightarrow> (response \<times> db) result" where
  "get_one_todo current_user todo_id d =
     (case current_user of
        None \<Rightarrow> Inl AttributeError
      | Some cu \<Rightarrow>
          (case find (\<lambda>t. user_id t = uid cu) (todos d) of
             None \<Rightarrow> Inl AttributeError
           | Some todo \<Rightarrow>
               Inr (json_resp (JObj [(''all-to-do'', JArr [todo_json todo])]) STATUS_CODE_200_SUCCESS, d)))"

definition create_todo :: "user_row option \<Rightarrow> jval option \<Rightarrow> db \<Rightarrow> (response \<times> db) result" where
  "create_todo current_user data d =
     (case current_user of
        None \<Rightarrow> Inl AttributeError
      | Some cu \<Rightarrow>
          bind_r (subscript data ''description'') (\<lambda>ds.
          bind_r (subscript data ''complete'') (\<lambda>cp.
          bind_r (text_col ds) (\<lambda>ds_col.
          bind_r (bool_col cp) (\<lambda>cp_col.
          Inr (json_resp (JObj [(''to-do'', JStr ''Task add successfully!'')]) STATUS_CODE_201_CREATE,
               add_todo d (uid cu) ds_col cp_col))))))"

definition set_description :: "jval \<Rightarrow> todo_row option \<Rightarrow> todo_row option result" where
  "set_description v todo =
     (case todo of
        None \<Rightarrow> Inl AttributeError
      | Some t \<Rightarrow> bind_r (text_col v) (\<lambda>s. Inr (Some (t\<lparr>description := s\<rparr>))))"

definition set_complete :: "jval \<Rightarrow> todo_row option \<Rightarrow> todo_row option result" where
  "set_complete v todo =
     (case todo of
        None \<Rightarrow> Inl AttributeError
      | Some t \<Rightarrow> bind_r (bool_col v) (\<lambda>b. Inr (Some (t\<lparr>complete := b\<rparr>))))"

text \<open>\<^verbatim>\<open>if data.get(k): <assign>\<close>.\<close>

definition set_if_truthy ::
  "jval option \<Rightarrow> string \<Rightarrow> (jval \<Rightarrow> 'a \<Rightarrow> 'a result) \<Rightarrow> 'a \<Rightarrow> 'a result" where
  "set_if_truthy data k assign x =
     bind_r (dict_get data k) (\<lambda>v. if truthy v then assign v x else Inr x)"

definition commit_todo :: "db \<Rightarrow> todo_row option \<Rightarrow> db" where
  "commit_todo d todo = (case todo of None \<Rightarrow> d | Some t \<Rightarrow> save_todo d t)"

definition update_todo ::
  "user_row option \<Rightarrow> string \<Rightarrow> jval option \<Rightarrow> db \<Rightarrow> (response \<times> db) result" where
  "update_todo current_user todo_id data d =
     bind_r (int_arg todo_id) (\<lambda>owner.
     (let todo = find (\<lambda>t. int (user_id t) = owner) (todos d) in
     bind_r (set_if_truthy data ''description'' set_description todo) (\<lambda>todo.
     bind_r (set_if_truthy data ''complete'' set_complete todo) (\<lambda>todo.
     Inr (json_resp (JObj [(''to-do'', JStr ''Task updated successfully!'')]) STATUS_CODE_202_ACCEPT,
          commit_todo d todo)))))"

definition delete_todo :: "user_row option \<Rightarrow> string \<Rightarrow> db \<Rightarrow> (response \<times> db) result" where
  "delete_todo current_user todo_id d =
     (case find (\<lambda>t. sql_eq_int todo_id (int (user_id t))) (todos d) of
        None \<Rightarrow> Inl UnmappedInstanceError
      | Some todo \<Rightarrow>
          Inr (json_resp (JObj [(''to-do'', JStr ''Task has been deleted!'')]) STATUS_CODE_202_ACCEPT,
               delete_todo_row d todo))"

lemmas todos_view_defs [handler_simps] = get_all_todo_def get_one_todo_def create_todo_def
  update_todo_def delete_todo_def

section \<open>Lemmas\<close>

lemma set_if_truthy_keeps:
  assumes "set_if_truthy data k assign x = Inr y" and "P x"
    and "\<And>v x y. truthy v \<Longrightarrow> assign v x = Inr y \<Longrightarrow> P x \<Longrightarrow> P y"
  shows "P y"
  using assms by (auto simp: set_if_truthy_def split: if_splits)

lemma set_complete_truthy:
  "truthy v \<Longrightarrow> set_complete v todo = Inr (Some t) \<Longrightarrow> complete t = Some True"
  by (auto simp: set_complete_def dest: bool_col_truthy split: option.splits)

lemma set_complete_origin:
  "truthy v \<Longrightarrow> set_complete v x = Inr (Some t1) \<Longrightarrow>
   \<exists>t0. x = Some t0 \<and> tid t1 = tid t0 \<and> complete t1 = Some True"
  by (auto simp: set_complete_def dest: bool_col_truthy split: option.splits)

lemma commit_todo_wf: "wf_db d \<Longrightarrow> wf_db (commit_todo d todo)"
  by (cases todo) (simp_all add: commit_todo_def wf_save_todo)

lemma todos_views_wf:
  assumes "wf_db d"
  shows "get_all_todo cu d = Inr (resp, d') \<Longrightarrow> wf_db d'"
    and "get_one_todo cu x d = Inr (resp, d') \<Longrightarrow> wf_db d'"
    and "create_todo cu data d = Inr (resp, d') \<Longrightarrow> wf_db d'"
    and "update_todo cu x data d = Inr (resp, d') \<Longrightarrow> wf_db d'"
    and "delete_todo cu x d = Inr (resp, d') \<Longrightarrow> wf_db d'"
  using assms
  by (auto simp: todos_view_defs Let_def commit_todo_wf split: option.splits)

lemma todos_views_status:
  shows "get_all_todo cu d = Inr (resp, d') \<Longrightarrow> status resp = 200"
    and "get_one_todo cu x d = Inr (resp, d') \<Longrightarrow> status resp = 200"
    and "create_todo cu data d = Inr (resp, d') \<Longrightarrow> status resp = 201"
    and "update_todo cu x data d = Inr (resp, d') \<Longrightarrow> status resp = 202"
    and "delete_todo cu x d = Inr (resp, d') \<Longrightarrow> status resp = 202"
  by (auto simp: todos_view_defs Let_def split: option.splits)

lemma save_todo_member:
  assumes "t \<in> set (todos d)"
  shows "(if tid t = tid t1 then t1 else t) \<in> set (todos (save_todo d t1))"
  using assms by (auto simp: save_todo_def)

section \<open>Properties of the task views\<close>



text \<open>
  C11. No \<^verbatim>\<open>PUT /todo/<id>\<close> makes a completed task incomplete: a falsy
  \<^verbatim>\<open>complete\<close> value is skipped and a truthy one can only be stored as true, so every
  task completed before the request is still there and completed after it.
\<close>

theorem update_todo_never_uncompletes:
  assumes wf: "wf_db d" and upd: "update_todo cu x data d = Inr (resp, d')"
    and t: "t \<in> set (todos d)" and compl: "complete t = Some True"
  shows "\<exists>t' \<in> set (todos d'). tid t' = tid t \<and> complete t' = Some True"
proof -
  from upd obtain k t2 t3 where
      s2: "set_if_truthy data ''description'' set_description
             (find (\<lambda>t. int (user_id t) = k) (todos d)) = Inr t2" and
      s3: "set_if_truthy data ''complete'' set_complete t2 = Inr t3" and
      d': "d' = commit_todo d t3"
    by (auto simp: update_todo_def Let_def)
  define P where "P r \<longleftrightarrow> (\<forall>t1. r = Some t1 \<longrightarrow> (\<exists>t0 \<in> set (todos d). tid t1 = tid t0 \<and>
      (complete t0 = Some True \<longrightarrow> complete t1 = Some True)))" for r :: "todo_row option"
  have "P (find (\<lambda>t. int (user_id t) = k) (todos d))"
    by (auto simp: P_def dest: find_Some_prop)
  with s2 have "P t2"
    by (rule set_if_truthy_keeps) (auto simp: P_def set_description_def split: option.splits)
  with s3 have P3: "P t3"
    by (rule set_if_truthy_keeps) (fastforce simp: P_def dest: set_complete_origin)
  show ?thesis
  proof (cases t3)
    case None
    with d' t compl show ?thesis by (auto simp: commit_todo_def)
  next
    case (Some t1)
    with P3 obtain t0 where t0: "t0 \<in> set (todos d)" "tid t1 = tid t0"
      and c: "complete t0 = Some True \<longrightarrow> complete t1 = Some True"
      by (auto simp: P_def)
    have "tid t = tid t1 \<Longrightarrow> t = t0"
      using t t0 wf_tid_distinct [OF wf] by (metis distinct_map inj_onD)
    with save_todo_member [OF t, of t1] c compl d' Some show ?thesis
      by (auto simp: commit_todo_def split: if_splits)
  qed
qed

theorem update_todo_never_uncompletes_witness:
  "update_todo None ''1'' (Some (JObj [(''complete'', JBool False)])) demo_db = Inr (
     json_resp (JObj [(''to-do'', JStr ''Task updated successfully!'')]) 202, demo_db) \<and>
   (\<exists>t' \<in> set (todos demo_db). tid t' = tid demo_task2 \<and> complete t' = Some True)"
proof -
  have wf: "wf_db demo_db" by (simp add: wf_db_def demo_store_defs)
  have h: "update_todo None ''1'' (Some (JObj [(''complete'', JBool False)])) demo_db = Inr (
     json_resp (JObj [(''to-do'', JStr ''Task updated successfully!'')]) 202, demo_db)"
    by (simp add: update_todo_def int_arg_def int_reader_defs
        set_if_truthy_def dict_get_def obj_lookup_def commit_todo_def save_todo_def demo_store_defs)
  have "demo_task2 \<in> set (todos demo_db)" and "complete demo_task2 = Some True"
    by (simp_all add: demo_store_defs)
  from update_todo_never_uncompletes [OF wf h this] h show ?thesis by blast
qed

text \<open>
  C14. A successful \<^verbatim>\<open>POST /todo\<close> by an authenticated account appends one task
  owned by that account, with a row id no task had, leaves the accounts alone, and the
  task appears in the listing of \<^verbatim>\<open>GET /todo\<close> afterwards.
\<close>

theorem create_todo_owned_and_listed:
  assumes "create_todo (Some u) data d = Inr (resp, d')"
  shows "\<exists>t. todos d' = todos d @ [t] \<and> user_id t = uid u \<and> tid t \<notin> tid ` set (todos d) \<and>
     users d' = users d \<and>
     (\<exists>out. get_all_todo cu d' = Inr (json_resp (JObj [(''all-to-do'', JArr out)]) STATUS_CODE_200_SUCCESS, d') \<and>
        todo_json t \<in> set out)"
proof -
  from assms obtain ds dc where
      d': "d' = add_todo d (uid u) ds dc"
    by (auto simp: create_todo_def)
  let ?t = "\<lparr>tid = next_id (map tid (todos d)), user_id = uid u, description = ds, complete = dc\<rparr>"
  have "todos d' = todos d @ [?t]" and "users d' = users d" by (simp_all add: d' add_todo_def)
  moreover have "tid ?t \<notin> tid ` set (todos d)"
    using next_id_fresh [of _ "map tid (todos d)"] by force
  ultimately show ?thesis by (auto simp: get_all_todo_def)
qed

theorem create_todo_owned_and_listed_witness:
  "create_todo (Some demo_alice) (Some (JObj [(''description'', JStr ''buy milk''), (''complete'', JBool False)]))
     demo_db = Inr (json_resp (JObj [(''to-do'', JStr ''Task add successfully!'')]) 201,
       demo_db\<lparr>todos := [demo_task, demo_task2,
         \<lparr>tid = 3, user_id = 1, description = Some ''buy milk'', complete = Some False\<rparr>]\<rparr>) \<and>
   uid demo_alice = 1"
proof -
  have h: "create_todo (Some demo_alice) (Some (JObj [(''description'', JStr ''buy milk''), (''complete'', JBool False)]))
     demo_db = Inr (json_resp (JObj [(''to-do'', JStr ''Task add successfully!'')]) 201,
       demo_db\<lparr>todos := [demo_task, demo_task2,
         \<lparr>tid = 3, user_id = 1, description = Some ''buy milk'', complete = Some False\<rparr>]\<rparr>)"
    by (simp add: create_todo_def obj_lookup_def text_col_def bool_col_def add_todo_def next_id_def
        demo_store_defs)
  from create_todo_owned_and_listed [OF h] h show ?thesis by (simp add: demo_alice_def)
qed

end
