(* ===== verification/App.thy ===== *)
theory App
  imports Todos
begin

text \<open>
  The Flask application of \<^verbatim>\<open>src/api.py\<close> as a whole: the route table of the
  \<^verbatim>\<open>@app.route\<close> decorators, the \<^verbatim>\<open>@token_required\<close> wrapping of every route but
  \<^verbatim>\<open>/login\<close>, and the error views registered with \<^verbatim>\<open>@app.errorhandler\<close>: an
  unknown path gives 404, a known path with a method it does not accept gives 405, an
  exception raised by a view gives 500 and the session is rolled back.
  \<open>handle_request\<close> is one request, a step \<open>db \<Rightarrow> response \<times> db\<close>; the
  reachable databases are those a sequence of requests produces from an empty one.

  The path is given split at \<^verbatim>\<open>/\<close>; the default \<^verbatim>\<open><string>\<close> converter takes a
  non-empty segment.  Flask's automatic \<^verbatim>\<open>HEAD\<close> and \<^verbatim>\<open>OPTIONS\<close> answers are not
  modelled (the method type has no such constructors).
\<close>

datatype route =
    Login_route
  | Users_route
  | User_route string
  | Todo_route
  | Todo_item_route string

definition match_route :: "string list \<Rightarrow> route option" where
  "match_route p =
     (case p of
        [a] \<Rightarrow>
          if a = ''login'' then Some Login_route
          else if a = ''users'' then Some Users_route
          else if a = ''todo'' then Some Todo_route
          else None
      | [a, b] \<Rightarrow>
          if b = [] then None
          else if a = ''users'' then Some (User_route b)
          else if a = ''todo'' then Some (Todo_item_route b)
          else None
      | _ \<Rightarrow> None)"

text \<open>
  The view a route and a method select, already applied to the request; \<open>None\<close> is a
  method the route does not accept.
\<close>

fun app_view :: "env \<Rightarrow> request \<Rightarrow> route \<Rightarrow> http_method \<Rightarrow> db \<Rightarrow> (response \<times> db) result option" where
  "app_view e rq Login_route POST d = Some (Inr (login e (authorization rq) d, d))"
| "app_view e rq Users_route GET d = Some (token_required get_all_users e (access_token rq) d)"
| "app_view e rq Users_route POST d =
     Some (token_required (with_json (json_body rq) (\<lambda>data cu. create_new_user cu e data)) e (access_token rq) d)"
| "app_view e rq (User_route x) GET d =
     Some (token_required (\<lambda>cu. get_one_user cu x) e (access_token rq) d)"
| "app_view e rq (User_route x) PUT d =
     Some (token_required (with_json (json_body rq) (\<lambda>data cu. update_user cu x e data)) e (access_token rq) d)"
| "app_view e rq (User_route x) DELETE d =
     Some (token_required (\<lambda>cu. delete_user cu x) e (access_token rq) d)"
| "app_view e rq Todo_route GET d = Some (token_required get_all_todo e (access_token rq) d)"
| "app_view e rq Todo_route POST d =
     Some (token_required (with_json (json_body rq) (\<lambda>data cu. create_todo cu data)) e (access_token rq) d)"
| "app_view e rq (Todo_item_route x) GET d =
     Some (token_required (\<lambda>cu. get_one_todo cu x) e (access_token rq) d)"
| "app_view e rq (Todo_item_route x) PUT d =
     Some (token_required (with_json (json_body rq) (\<lambda>data cu. update_todo cu x data)) e (access_token rq) d)"
| "app_view e rq (Todo_item_route x) DELETE d =
     Some (token_required (\<lambda>cu. delete_todo cu x) e (access_token rq) d)"
| "app_view e rq r m d = None"

text \<open>The \<^verbatim>\<open>methods=[...]\<close> lists of the \<^verbatim>\<open>@app.route\<close> decorators.\<close>

fun allowed_methods :: "route \<Rightarrow> http_method list" where
  "allowed_methods Login_route = [POST]"
| "allowed_methods Users_route = [GET, POST]"
| "allowed_methods (User_route x) = [GET, PUT, DELETE]"
| "allowed_methods Todo_route = [GET, POST]"
| "allowed_methods (Todo_item_route x) = [GET, PUT, DELETE]"

definition handle_request :: "env \<Rightarrow> request \<Rightarrow> db \<Rightarrow> response \<times> db" where
  "handle_request e rq d =
     (case match_route (path rq) of
        None \<Rightarrow> (not_found, d)
      | Some r \<Rightarrow>
          (case app_view e rq r (req_method rq) d of
             None \<Rightarrow> (not_allowed, d)
           | Some (Inl ex) \<Rightarrow> (error_response ex, d)
           | Some (Inr (resp, d')) \<Rightarrow> (resp, d')))"

text \<open>A sequence of requests, each with the environment it meets.\<close>

fun run_requests :: "(env \<times> request) list \<Rightarrow> db \<Rightarrow> response list \<times> db" where
  "run_requests [] d = ([], d)"
| "run_requests ((e, rq) # rqs) d =
     (let (resp, d') = handle_request e rq d;
          (resps, d'') = run_requests rqs d'
      in (resp # resps, d''))"

text \<open>A request of the examples: no body, carrying the token \<^verbatim>\<open>login\<close> issues for alice.\<close>

definition demo_request :: request where
  "demo_request = \<lparr>req_method = GET, path = [], authorization = None,
     access_token = Some (Tok (issued_token demo_env demo_alice)), json_body = NotJson\<rparr>"

inductive reachable :: "db \<Rightarrow> bool" where
  init: "reachable empty_db"
| step: "reachable d \<Longrightarrow> handle_request e rq d = (resp, d') \<Longrightarrow> reachable d'"

inductive_cases reachable_stepE: "reachable d'"

section \<open>One request\<close>

lemma app_view_wf:
  assumes "app_view e rq r m d = Some (Inr (resp, d'))" and "wf_db d"
  shows "wf_db d'"
  using assms
  by (cases "(e, rq, r, m, d)" rule: app_view.cases)
     (auto elim!: token_required_keeps dest!: with_json_Inr dest: users_views_wf todos_views_wf)

text \<open>The status codes a view can answer with: 200, 201, 202 from the views, 204 and 401
  from \<^verbatim>\<open>login\<close>, 200 and 401 from \<^verbatim>\<open>token_required\<close>.\<close>

lemma app_view_status_codes:
  assumes "app_view e rq r m d = Some (Inr (resp, d'))"
  shows "status resp \<in> {200, 201, 202, 204, 401}"
  using assms
  by (cases "(e, rq, r, m, d)" rule: app_view.cases)
     (auto simp: login_def login_failed_def no_user_found_def
        dest!: token_required_status_cases with_json_Inr dest: users_views_status todos_views_status
        split: option.splits if_splits)

lemma app_view_status:
  assumes "app_view e rq r m d = Some (Inr (resp, d'))"
  shows "status resp \<noteq> 500"
  using app_view_status_codes [OF assms] by auto

lemma handle_request_wf: "wf_db d \<Longrightarrow> handle_request e rq d = (resp, d') \<Longrightarrow> wf_db d'"
  by (auto simp: handle_request_def split: option.splits sum.splits dest: app_view_wf)

lemma handle_request_cases:
  "handle_request e rq d = (resp, d') \<Longrightarrow>
     d' = d \<or> (\<exists>r. match_route (path rq) = Some r \<and> app_view e rq r (req_method rq) d = Some (Inr (resp, d')))"
  by (auto simp: handle_request_def split: option.splits sum.splits)

lemma run_requests_wf: "wf_db d \<Longrightarrow> run_requests rqs d = (resps, d') \<Longrightarrow> wf_db d'"
  by (induction rqs d arbitrary: resps rule: run_requests.induct)
     (auto split: prod.splits dest: handle_request_wf)

lemma app_view_defined: "app_view e rq r m d \<noteq> None \<longleftrightarrow> m \<in> set (allowed_methods r)"
  by (cases r; cases m) auto

lemma app_view_None: "m \<notin> set (allowed_methods r) \<Longrightarrow> app_view e rq r m d = None"
  using app_view_defined by blast

lemma handle_request_view:
  "match_route (path rq) = Some r \<Longrightarrow> app_view e rq r (req_method rq) d = Some v \<Longrightarrow>
   handle_request e rq d = (case v of Inl ex \<Rightarrow> (error_response ex, d) | Inr (resp, d') \<Rightarrow> (resp, d'))"
  by (simp add: handle_request_def)

section \<open>The views that read the body\<close>

text \<open>
  \<^verbatim>\<open>POST /users\<close>, \<^verbatim>\<open>PUT /users/<id>\<close>, \<^verbatim>\<open>POST /todo\<close> and
  \<^verbatim>\<open>PUT /todo/<id>\<close> call \<^verbatim>\<open>request.get_json()\<close>; given \<^verbatim>\<open>None\<close>, each of
  them raises an exception other than \<open>BadRequest\<close>.
\<close>

definition reads_body :: "route \<Rightarrow> http_method \<Rightarrow> bool" where
  "reads_body r m \<longleftrightarrow>
     (case (r, m) of (Users_route, POST) \<Rightarrow> True | (User_route _, PUT) \<Rightarrow> True
                   | (Todo_route, POST) \<Rightarrow> True | (Todo_item_route _, PUT) \<Rightarrow> True | _ \<Rightarrow> False)"

lemma body_views_no_json:
  "\<exists>ex. create_new_user cu e None d = Inl ex \<and> ex \<noteq> BadRequest"
  "\<exists>ex. update_user cu x e None d = Inl ex \<and> ex \<noteq> BadRequest"
  "\<exists>ex. create_todo cu None d = Inl ex \<and> ex \<noteq> BadRequest"
  "\<exists>ex. update_todo cu x None d = Inl ex \<and> ex \<noteq> BadRequest"
  by (auto simp: create_new_user_def update_user_def set_if_given_def create_todo_def
      update_todo_def set_if_truthy_def dict_get_def subscript_def int_arg_def Let_def
      split: option.splits)

lemma body_routes:
  assumes "reads_body r m"
  shows "\<exists>f. (\<forall>p. app_view e (rq\<lparr>json_body := p\<rparr>) r m d =
                  Some (token_required (with_json p f) e (access_token rq) d)) \<and>
             (\<forall>cu. \<exists>ex. f None cu d = Inl ex \<and> ex \<noteq> BadRequest)"
proof -
  have "r = Users_route \<and> m = POST \<or> (\<exists>x. r = User_route x \<and> m = PUT) \<or>
        r = Todo_route \<and> m = POST \<or> (\<exists>x. r = Todo_item_route x \<and> m = PUT)"
    using assms by (cases r; cases m) (simp_all add: reads_body_def)
  then show ?thesis
  proof (elim disjE exE conjE)
    assume "r = Users_route" "m = POST"
    with body_views_no_json(1) show ?thesis
      by (intro exI [of _ "\<lambda>data cu. create_new_user cu e data"]) simp
  next
    fix x assume "r = User_route x" "m = PUT"
    with body_views_no_json(2) show ?thesis
      by (intro exI [of _ "\<lambda>data cu. update_user cu x e data"]) simp
  next
    assume "r = Todo_route" "m = POST"
    with body_views_no_json(3) show ?thesis
      by (intro exI [of _ "\<lambda>data cu. create_todo cu data"]) simp
  next
    fix x assume "r = Todo_item_route x" "m = PUT"
    with body_views_no_json(4) show ?thesis
      by (intro exI [of _ "\<lambda>data cu. update_todo cu x data"]) simp
  qed
qed

section \<open>Properties of the application\<close>

text \<open>
  C3. A request to any protected route with an accepted method and no
  \<^verbatim>\<open>X-Access-Token\<close> header is answered "Token is missing!" before any view runs,
  and the database is unchanged.  The answer carries status 200: \<^verbatim>\<open>jsonify\<close> is
  returned without an error code.
\<close>

theorem missing_token_rejected:
  assumes "access_token rq = None" and "match_route (path rq) = Some r" and "r \<noteq> Login_route"
    and "req_method rq \<in> set (allowed_methods r)"
  shows "handle_request e rq d = (token_missing, d) \<and> status token_missing = STATUS_CODE_200_SUCCESS"
  using assms
  by (cases r; cases "req_method rq")
     (simp_all add: handle_request_def token_required_def token_missing_def)

theorem missing_token_rejected_witness:
  "handle_request demo_env (demo_request\<lparr>path := [''todo''], access_token := None\<rparr>) demo_db =
     (token_missing, demo_db)"
proof -
  have "match_route (path (demo_request\<lparr>path := [''todo''], access_token := None\<rparr>)) = Some Todo_route"
    by (simp add: match_route_def)
  from missing_token_rejected [OF _ this] show ?thesis by (simp add: demo_request_def)
qed

text \<open>
  C6. \<^verbatim>\<open>DELETE /users/<id>\<close> by an authenticated caller for a public id no account
  has does not report "not found": \<^verbatim>\<open>db.session.delete(None)\<close> raises and the
  answer is the 500 "INTERNAL ERROR!" of the error handler, with nothing changed.
\<close>

theorem delete_missing_account_internal_error:
  assumes "token_accepted e (access_token rq)" and "path rq = [''users'', x]" and "x \<noteq> []"
    and "req_method rq = DELETE" and "\<forall>u \<in> set (users d). public_id u \<noteq> x"
  shows "handle_request e rq d = (internal_error, d)"
proof -
  from assms(5) have "find (\<lambda>u. public_id u = x) (users d) = None" by (auto simp: find_None_iff)
  then have "delete_user cu x d = Inl UnmappedInstanceError" for cu
    by (simp add: delete_user_def)
  with assms(1) have "token_required (\<lambda>cu. delete_user cu x) e (access_token rq) d = Inl UnmappedInstanceError"
    by (rule token_required_accepted)
  with assms(2-4) show ?thesis by (simp add: handle_request_def match_route_def)
qed

theorem delete_missing_account_witness:
  "handle_request demo_env (demo_request\<lparr>req_method := DELETE, path := [''users'', ''nobody'']\<rparr>) demo_db =
     (internal_error, demo_db)"
proof -
  have "token_accepted demo_env (access_token demo_request)"
    by (simp add: token_accepted_def demo_request_def issued_token_def jwt_encode_def
        demo_env_def token_lifetime_def)
  moreover have "\<forall>u \<in> set (users demo_db). public_id u \<noteq> ''nobody''" by (simp add: demo_store_defs)
  ultimately show ?thesis by (intro delete_missing_account_internal_error) simp_all
qed

text \<open>
  C7. Every answer with status 500 is the error handler's, and the request that got it
  changed nothing: no view returns 500 itself, and an exception rolls the session back.
\<close>

theorem internal_error_rolls_back:
  assumes "handle_request e rq d = (resp, d')" and "status resp = 500"
  shows "resp = internal_error \<and> d' = d"
  using assms
  by (auto simp: handle_request_def error_response_def bad_request_def
      split: option.splits sum.splits if_splits dest: app_view_status)

theorem internal_error_rolls_back_witness:
  "handle_request demo_env (demo_request\<lparr>req_method := DELETE, path := [''users'', ''nobody'']\<rparr>) demo_db =
     (internal_error, demo_db) \<and> status internal_error = 500"
proof -
  have h: "handle_request demo_env (demo_request\<lparr>req_method := DELETE, path := [''users'', ''nobody'']\<rparr>) demo_db =
     (internal_error, demo_db)"
    by (simp add: handle_request_def match_route_def token_required_def delete_user_def demo_request_def
        issued_token_def jwt_encode_def demo_env_def token_lifetime_def demo_store_defs)
  from internal_error_rolls_back [OF h] h show ?thesis by simp
qed

text \<open>
  C8. In every database a sequence of requests produces from an empty one, row ids are
  strictly increasing in both tables and public ids are unique.
\<close>

theorem reachable_wf_db: "reachable d \<Longrightarrow> wf_db d"
proof (induction rule: reachable.induct)
  case init
  show ?case by (rule wf_empty_db)
next
  case (step d e rq resp d')
  then show ?case by (blast intro: handle_request_wf)
qed

theorem reachable_wf_db_witness:
  "reachable (empty_db\<lparr>users := [\<lparr>uid = 1, public_id = ''0f9e-new'', name = Some ''root'',
      password = PwHash 99 ''pw'', admin = False\<rparr>]\<rparr>) \<and>
   wf_db (empty_db\<lparr>users := [\<lparr>uid = 1, public_id = ''0f9e-new'', name = Some ''root'',
      password = PwHash 99 ''pw'', admin = False\<rparr>]\<rparr>)"
proof -
  let ?rq = "\<lparr>req_method = POST, path = [''users''], authorization = None,
     access_token = Some (Tok (JWT \<lparr>claim_public_id = Some ''ghost'', claim_exp = None\<rparr> ''k3y'')),
     json_body = JsonBody (JObj [(''name'', JStr ''root''), (''password'', JStr ''pw'')])\<rparr>"
  have "handle_request demo_env ?rq empty_db =
      (json_resp (JObj [(''message'', JStr ''The user has been created!'')]) STATUS_CODE_201_CREATE,
       empty_db\<lparr>users := [\<lparr>uid = 1, public_id = ''0f9e-new'', name = Some ''root'',
         password = PwHash 99 ''pw'', admin = False\<rparr>]\<rparr>)"
    by (simp add: handle_request_def match_route_def token_required_def create_new_user_def
        obj_lookup_def str_arg_def text_col_def add_user_def next_id_def generate_password_hash_def
        empty_db_def demo_env_def)
  with reachable.init have r: "reachable (empty_db\<lparr>users := [\<lparr>uid = 1, public_id = ''0f9e-new'',
      name = Some ''root'', password = PwHash 99 ''pw'', admin = False\<rparr>]\<rparr>)"
    by (rule reachable.step)
  from reachable_wf_db [OF r] r show ?thesis by blast
qed

text \<open>
  C10. \<^verbatim>\<open>GET /todo/<id>\<close> does not depend on the id: any two ids give the same
  answer and the same database.
\<close>

theorem get_todo_item_ignores_id:
  assumes "x \<noteq> []" and "y \<noteq> []"
  shows "handle_request e (rq\<lparr>req_method := GET, path := [''todo'', x]\<rparr>) d =
         handle_request e (rq\<lparr>req_method := GET, path := [''todo'', y]\<rparr>) d"
proof -
  have "(\<lambda>cu. get_one_todo cu x) = (\<lambda>cu. get_one_todo cu y)"
    by (simp add: fun_eq_iff get_one_todo_def)
  with assms show ?thesis by (simp add: handle_request_def match_route_def)
qed

theorem get_todo_item_ignores_id_witness:
  "handle_request demo_env (demo_request\<lparr>req_method := GET, path := [''todo'', ''1'']\<rparr>) demo_db =
   handle_request demo_env (demo_request\<lparr>req_method := GET, path := [''todo'', ''999'']\<rparr>) demo_db \<and>
   handle_request demo_env (demo_request\<lparr>req_method := GET, path := [''todo'', ''1'']\<rparr>) demo_db =
     (json_resp (JObj [(''all-to-do'', JArr [todo_json demo_task2])]) 200, demo_db)"
proof -
  have "handle_request demo_env (demo_request\<lparr>req_method := GET, path := [''todo'', ''1'']\<rparr>) demo_db =
        handle_request demo_env (demo_request\<lparr>req_method := GET, path := [''todo'', ''999'']\<rparr>) demo_db"
    by (rule get_todo_item_ignores_id) simp_all
  moreover have "handle_request demo_env (demo_request\<lparr>req_method := GET, path := [''todo'', ''1'']\<rparr>) demo_db =
     (json_resp (JObj [(''all-to-do'', JArr [todo_json demo_task2])]) 200, demo_db)"
    by (simp add: handle_request_def match_route_def token_required_def get_one_todo_def demo_request_def
        issued_token_def jwt_encode_def demo_env_def token_lifetime_def demo_store_defs)
  ultimately show ?thesis by simp
qed

text \<open>
  C17. Routing errors: a path no rule matches is answered 404 "Route not found!", a
  matched path with a method its rule does not list is answered 405 "METHOD NOT
  ALLOWED!", and neither changes the database.
\<close>

theorem dispatch_errors:
  "(match_route (path rq) = None \<longrightarrow> handle_request e rq d = (not_found, d)) \<and>
   (\<forall>r. match_route (path rq) = Some r \<and> req_method rq \<notin> set (allowed_methods r) \<longrightarrow>
      handle_request e rq d = (not_allowed, d))"
  by (auto simp: handle_request_def app_view_None)

theorem dispatch_errors_witness:
  "handle_request demo_env (demo_request\<lparr>path := [''admin'']\<rparr>) demo_db = (not_found, demo_db) \<and>
   handle_request demo_env (demo_request\<lparr>req_method := PATCH, path := [''users'']\<rparr>) demo_db =
     (not_allowed, demo_db)"
proof -
  have "match_route (path (demo_request\<lparr>path := [''admin'']\<rparr>)) = None"
    by (simp add: match_route_def)
  moreover have "match_route (path (demo_request\<lparr>req_method := PATCH, path := [''users'']\<rparr>)) = Some Users_route \<and>
      req_method (demo_request\<lparr>req_method := PATCH, path := [''users'']\<rparr>) \<notin> set (allowed_methods Users_route)"
    by (simp add: match_route_def)
  ultimately show ?thesis
    using dispatch_errors [of "demo_request\<lparr>path := [''admin'']\<rparr>" demo_env demo_db]
      dispatch_errors [of "demo_request\<lparr>req_method := PATCH, path := [''users'']\<rparr>" demo_env demo_db]
    by blast
qed

text \<open>
  C19. \<^verbatim>\<open>DELETE /todo/<id>\<close> by an authenticated caller when no task's owner id
  equals the path text, as SQLite compares a text with an INTEGER column
  (\<open>sql_eq_int\<close>), raises in \<^verbatim>\<open>db.session.delete(None)\<close>: the answer is 500
  and nothing changes.
\<close>

theorem delete_missing_task_internal_error:
  assumes "token_accepted e (access_token rq)" and "path rq = [''todo'', x]" and "x \<noteq> []"
    and "req_method rq = DELETE" and "\<forall>t \<in> set (todos d). \<not> sql_eq_int x (int (user_id t))"
  shows "handle_request e rq d = (internal_error, d)"
proof -
  from assms(5) have "find (\<lambda>t. sql_eq_int x (int (user_id t))) (todos d) = None"
    by (auto simp: find_None_iff)
  then have "delete_todo cu x d = Inl UnmappedInstanceError" for cu
    by (simp add: delete_todo_def)
  with assms(1) have "token_required (\<lambda>cu. delete_todo cu x) e (access_token rq) d = Inl UnmappedInstanceError"
    by (rule token_required_accepted)
  with assms(2-4) show ?thesis by (simp add: handle_request_def match_route_def)
qed

theorem delete_missing_task_witness:
  "handle_request demo_env (demo_request\<lparr>req_method := DELETE, path := [''todo'', ''1.5'']\<rparr>) demo_db =
     (internal_error, demo_db)"
proof -
  have "token_accepted demo_env (access_token demo_request)"
    by (simp add: token_accepted_def demo_request_def issued_token_def jwt_encode_def
        demo_env_def token_lifetime_def)
  moreover have "\<forall>t \<in> set (todos demo_db). \<not> sql_eq_int ''1.5'' (int (user_id t))"
    by (simp add: demo_store_defs sql_reader_defs)
  ultimately show ?thesis by (intro delete_missing_task_internal_error) simp_all
qed

text \<open>
  C27. A body declared as JSON but malformed, sent with an accepted token to one of the
  four views that read the body, is answered 400 by werkzeug (no handler is registered
  for it, and it does not reach the 500 handler), with nothing changed.  A body not
  declared as JSON reaches the view as \<^verbatim>\<open>None\<close>, which raises: 500, nothing
  changed.
\<close>

theorem malformed_body_bad_request:
  assumes "token_accepted e (access_token rq)" and "match_route (path rq) = Some r"
    and "reads_body r (req_method rq)"
  shows "handle_request e (rq\<lparr>json_body := MalformedJson\<rparr>) d = (bad_request, d) \<and>
         handle_request e (rq\<lparr>json_body := NotJson\<rparr>) d = (internal_error, d)"
proof -
  from body_routes [OF assms(3)] obtain f where
    app: "\<And>p. app_view e (rq\<lparr>json_body := p\<rparr>) r (req_method rq) d =
                 Some (token_required (with_json p f) e (access_token rq) d)"
    and none: "\<And>cu. \<exists>ex. f None cu d = Inl ex \<and> ex \<noteq> BadRequest"
    by blast
  from token_required_runs_view [OF assms(1)] obtain cu where
    tr: "\<And>fn. token_required fn e (access_token rq) d = fn cu d" by blast
  from none obtain ex where ex: "f None cu d = Inl ex" "ex \<noteq> BadRequest" by blast
  have "match_route (path (rq\<lparr>json_body := p\<rparr>)) = Some r" for p using assms(2) by simp
  with app tr ex show ?thesis by (simp add: handle_request_view)
qed

theorem malformed_body_bad_request_witness:
  "handle_request demo_env (demo_request\<lparr>req_method := POST, path := [''todo''],
       json_body := MalformedJson\<rparr>) demo_db = (bad_request, demo_db) \<and>
   handle_request demo_env (demo_request\<lparr>req_method := POST, path := [''todo''],
       json_body := NotJson\<rparr>) demo_db = (internal_error, demo_db)"
proof -
  have "token_accepted demo_env (access_token (demo_request\<lparr>req_method := POST, path := [''todo'']\<rparr>))"
    by (simp add: token_accepted_def demo_request_def issued_token_def jwt_encode_def
        demo_env_def token_lifetime_def)
  moreover have "match_route (path (demo_request\<lparr>req_method := POST, path := [''todo'']\<rparr>)) = Some Todo_route"
    by (simp add: match_route_def)
  moreover have "reads_body Todo_route (req_method (demo_request\<lparr>req_method := POST, path := [''todo'']\<rparr>))"
    by (simp add: reads_body_def)
  ultimately show ?thesis by (rule malformed_body_bad_request)
qed

end
