(* ===== verification/Accounts.thy ===== *)
theory Accounts
  imports App
begin

text \<open>
  The account store as the specification describes it (section 3 and 4.5): a finite map
  from public identifiers to accounts (display name, password hash, admin flag), with
  creation under a fresh identifier, update of an existing account, and deletion.
  \<open>accounts\<close> is the abstraction of the \<^verbatim>\<open>User\<close> table of a database; the
  lemmas below show that the update and delete operations of \<open>Store\<close> and the
  account views that use them implement the matching abstract operation on well-formed
  databases, and that the task operations leave the account store alone.

  The last property of this theory is what the specification leaves open: no view of
  \<^verbatim>\<open>/users\<close> consults the current user, so the holder of any token that decodes (even
  one naming no account) may set the admin flag of any account.
\<close>

record account =
  acc_name :: "string option"
  acc_password :: pw_hash
  acc_admin :: bool

definition account_of :: "user_row \<Rightarrow> account" where
  "account_of u = \<lparr>acc_name = name u, acc_password = password u, acc_admin = admin u\<rparr>"

definition accounts :: "db \<Rightarrow> string \<rightharpoonup> account" where
  "accounts d = keyed public_id account_of (users d)"

section \<open>The store operations refine the abstract ones\<close>

lemma accounts_member:
  "wf_db d \<Longrightarrow> u \<in> set (users d) \<Longrightarrow> accounts d (public_id u) = Some (account_of u)"
  by (simp add: accounts_def keyed_member wf_db_def)

lemma accounts_delete_user_row:
  assumes "wf_db d" and "r \<in> set (users d)"
  shows "accounts (delete_user_row d r) = store_delete (public_id r) (accounts d)"
proof -
  have "filter (\<lambda>x. uid x \<noteq> uid r) (users d) = filter (\<lambda>x. x \<noteq> r) (users d)"
    using wf_uid_distinct [OF assms(1)] assms(2) by (rule filter_key_eq_remove)
  with assms show ?thesis
    by (simp add: accounts_def delete_user_row_def keyed_remove wf_db_def)
qed

lemma accounts_save_user:
  assumes "wf_db d" and "r0 \<in> set (users d)" and "uid r = uid r0" and "public_id r = public_id r0"
  shows "accounts (save_user d r) = store_update (public_id r0) (\<lambda>_. account_of r) (accounts d)"
  using save_user_replaces [OF assms(1-3)] assms
  by (simp add: accounts_def keyed_replace wf_db_def)

lemma accounts_add_todo [simp]: "accounts (add_todo d owner descr c) = accounts d"
  and accounts_save_todo [simp]: "accounts (save_todo d t) = accounts d"
  and accounts_delete_todo_row [simp]: "accounts (delete_todo_row d t) = accounts d"
  by (simp_all add: accounts_def add_todo_def save_todo_def delete_todo_row_def)

lemma accounts_commit_todo [simp]: "accounts (commit_todo d todo) = accounts d"
  by (cases todo) (simp_all add: commit_todo_def)

section \<open>Refinement by the account views\<close>

text \<open>
  C20. \<^verbatim>\<open>delete_user\<close> implements deletion in the abstract store: on a well-formed
  database a successful call removes exactly the account with the path's public id, which
  was present.
\<close>

theorem delete_user_refines_delete:
  assumes "wf_db d" and "delete_user cu x d = Inr (resp, d')"
  shows "x \<in> dom (accounts d) \<and> accounts d' = store_delete x (accounts d)"
proof -
  from assms(2) obtain r where r: "find (\<lambda>u. public_id u = x) (users d) = Some r"
    and d': "d' = delete_user_row d r"
    by (auto simp: delete_user_def split: option.splits)
  from r have "r \<in> set (users d)" and "public_id r = x" by (auto dest: find_Some_prop)
  with assms(1) d' show ?thesis by (auto simp: accounts_delete_user_row accounts_member)
qed

theorem delete_user_refines_delete_witness:
  "accounts (delete_user_row demo_db demo_bob) = store_delete ''4b2e-bob'' (accounts demo_db)"
proof -
  have wf: "wf_db demo_db" by (simp add: wf_db_def demo_store_defs)
  have h: "delete_user None ''4b2e-bob'' demo_db =
     Inr (json_resp (JObj [(''message'', JStr ''User: 4b2e-bob has been deleted!'')]) 202,
          delete_user_row demo_db demo_bob)"
    by (simp add: delete_user_def demo_store_defs)
  from delete_user_refines_delete [OF wf h] show ?thesis by simp
qed

text \<open>
  C21. \<^verbatim>\<open>update_user\<close> implements an abstract update: on a well-formed database a
  successful call changes at most the account with the path's public id, and creates none
  when that id is unknown.
\<close>

theorem update_user_refines_update:
  assumes "wf_db d" and "update_user cu x e data d = Inr (resp, d')"
  shows "\<exists>f. accounts d' = store_update x f (accounts d)"
proof -
  from update_user_commits [OF assms(2)] obtain user where
    d': "d' = commit_user d user" and k: "same_key (find (\<lambda>u. public_id u = x) (users d)) user"
    by blast
  show ?thesis
  proof (cases user)
    case None
    with d' have "accounts d' = store_update x (\<lambda>v. v) (accounts d)"
      by (simp add: commit_user_def)
    then show ?thesis by blast
  next
    case (Some r)
    with k obtain r0 where r0: "find (\<lambda>u. public_id u = x) (users d) = Some r0"
      and "uid r = uid r0" and "public_id r = public_id r0"
      by (auto simp: same_key_def)
    moreover from r0 have "r0 \<in> set (users d)" and "public_id r0 = x"
      by (auto dest: find_Some_prop)
    ultimately have "accounts d' = store_update x (\<lambda>_. account_of r) (accounts d)"
      using assms(1) d' Some by (simp add: commit_user_def accounts_save_user)
    then show ?thesis by blast
  qed
qed

theorem update_user_refines_update_witness:
  "\<exists>f. accounts (demo_db\<lparr>users := [demo_alice\<lparr>name := Some ''alicia''\<rparr>, demo_bob]\<rparr>) =
     store_update ''8c1f-alice'' f (accounts demo_db)"
proof -
  have wf: "wf_db demo_db" by (simp add: wf_db_def demo_store_defs)
  have h: "update_user None ''8c1f-alice'' demo_env (Some (JObj [(''name'', JStr ''alicia'')])) demo_db =
     Inr (json_resp (JObj [(''message'', JStr ''User: 8c1f-alice was successfull updated!'')]) 201,
          demo_db\<lparr>users := [demo_alice\<lparr>name := Some ''alicia''\<rparr>, demo_bob]\<rparr>)"
    by (simp add: update_user_def set_if_given_def set_name_def obj_lookup_def commit_user_def
        save_user_def demo_store_defs)
  from update_user_refines_update [OF wf h] show ?thesis .
qed

text \<open>
  C22. Any token that decodes grants the admin flag: \<^verbatim>\<open>PUT /users/<id>\<close> with body
  \<^verbatim>\<open>{"admin": true}\<close> sets the admin flag of the account with that public id, whoever
  the token names (a non-admin, or no account at all), and changes nothing else.
\<close>

theorem any_token_grants_admin:
  assumes "token_accepted e (access_token rq)" and "path rq = [''users'', x]" and "x \<noteq> []"
    and "req_method rq = PUT" and "json_body rq = JsonBody (JObj [(''admin'', JBool True)])"
    and "wf_db d" and "find (\<lambda>u. public_id u = x) (users d) = Some u"
  shows "handle_request e rq d =
     (json_resp (JObj [(''message'', JStr (''User: '' @ x @ '' was successfull updated!''))])
        STATUS_CODE_201_CREATE, save_user d (u\<lparr>admin := True\<rparr>)) \<and>
   accounts (save_user d (u\<lparr>admin := True\<rparr>)) = (accounts d)(x \<mapsto> (account_of u)\<lparr>acc_admin := True\<rparr>)"
proof
  have "with_json (json_body rq) (\<lambda>data cu. update_user cu x e data) cu d =
      Inr (json_resp (JObj [(''message'', JStr (''User: '' @ x @ '' was successfull updated!''))])
        STATUS_CODE_201_CREATE, save_user d (u\<lparr>admin := True\<rparr>))" for cu
    using assms(5,7)
    by (simp add: update_user_def set_if_given_def set_admin_def bool_col_def obj_lookup_def
        commit_user_def)
  with assms(1) have "token_required (with_json (json_body rq) (\<lambda>data cu. update_user cu x e data)) e (access_token rq) d =
      Inr (json_resp (JObj [(''message'', JStr (''User: '' @ x @ '' was successfull updated!''))])
        STATUS_CODE_201_CREATE, save_user d (u\<lparr>admin := True\<rparr>))"
    by (rule token_required_accepted)
  with assms(2-4) show "handle_request e rq d =
     (json_resp (JObj [(''message'', JStr (''User: '' @ x @ '' was successfull updated!''))])
        STATUS_CODE_201_CREATE, save_user d (u\<lparr>admin := True\<rparr>))"
    by (simp add: handle_request_def match_route_def)
  from assms(7) have "u \<in> set (users d)" and "public_id u = x" by (auto dest: find_Some_prop)
  moreover from assms(6) calculation have "accounts d x = Some (account_of u)"
    by (auto dest: accounts_member)
  ultimately show "accounts (save_user d (u\<lparr>admin := True\<rparr>)) =
      (accounts d)(x \<mapsto> (account_of u)\<lparr>acc_admin := True\<rparr>)"
    using assms(6) by (simp add: accounts_save_user store_update_def account_of_def)
qed

theorem any_token_grants_admin_witness:
  "handle_request demo_env (demo_request\<lparr>req_method := PUT, path := [''users'', ''8c1f-alice''],
       json_body := JsonBody (JObj [(''admin'', JBool True)])\<rparr>) demo_db =
     (json_resp (JObj [(''message'', JStr ''User: 8c1f-alice was successfull updated!'')]) 201,
      save_user demo_db (demo_alice\<lparr>admin := True\<rparr>)) \<and>
   \<not> admin demo_alice"
proof -
  have "token_accepted demo_env (access_token demo_request)"
    by (simp add: token_accepted_def demo_request_def issued_token_def jwt_encode_def
        demo_env_def token_lifetime_def)
  moreover have "wf_db demo_db" by (simp add: wf_db_def demo_store_defs)
  moreover have "find (\<lambda>u. public_id u = ''8c1f-alice'') (users demo_db) = Some demo_alice"
    by (simp add: demo_store_defs)
  ultimately have "handle_request demo_env (demo_request\<lparr>req_method := PUT, path := [''users'', ''8c1f-alice''],
       json_body := JsonBody (JObj [(''admin'', JBool True)])\<rparr>) demo_db =
     (json_resp (JObj [(''message'', JStr (''User: '' @ ''8c1f-alice'' @ '' was successfull updated!''))])
        STATUS_CODE_201_CREATE, save_user demo_db (demo_alice\<lparr>admin := True\<rparr>))"
    by (intro conjunct1 [OF any_token_grants_admin]) simp_all
  then show ?thesis by (simp add: demo_alice_def)
qed

end
