(* ===== verification/Tasks.thy ===== *)
theory Tasks
  imports Accounts
begin

text \<open>
  The task store as the specification describes it: a finite map from task ids to tasks
  (owner, description, completion flag).  \<open>tasks\<close> abstracts the \<^verbatim>\<open>Todo\<close> table
  of a database with the shared \<open>keyed\<close> reading of \<open>Prelude\<close>; the lemmas show that
  saving and deleting a task row are update and removal of the abstract map, and that
  the account operations leave it alone.  On top of them, \<^verbatim>\<open>delete_todo\<close> and
  \<^verbatim>\<open>update_todo\<close> refine those abstract operations.

  The last group is about the interaction of the two stores: deleting an account keeps
  its tasks (the table has no cascade), a token whose account is gone makes the views
  that read the current user fail with 500, and a client with any valid token can empty
  the whole task table, one \<^verbatim>\<open>DELETE /todo/<owner id>\<close> per task.
\<close>

record task =
  task_owner :: nat
  task_description :: "string option"
  task_complete :: "bool option"

definition task_of :: "todo_row \<Rightarrow> task" where
  "task_of t = \<lparr>task_owner = user_id t, task_description = description t, task_complete = complete t\<rparr>"

definition tasks :: "db \<Rightarrow> nat \<rightharpoonup> task" where
  "tasks d = keyed tid task_of (todos d)"

text \<open>
  The request a client sends to delete the first task of the owner of \<open>t\<close>:
  \<^verbatim>\<open>DELETE /todo/<str(t.user_id)>\<close>, with a token signed under the application key,
  naming the public id \<open>pid\<close> (any string: no account need have it) and valid for one
  more second.
\<close>

definition delete_task_request :: "env \<Rightarrow> string \<Rightarrow> todo_row \<Rightarrow> env \<times> request" where
  "delete_task_request e pid t =
     (e, \<lparr>req_method = DELETE, path = [''todo'', nat_str (user_id t)], authorization = None,
          access_token = Some (Tok (jwt_encode \<lparr>claim_public_id = Some pid, claim_exp = Some (clock e + 1)\<rparr>
                                      (secret_key e))),
          json_body = NotJson\<rparr>)"

section \<open>The store operations refine the abstract ones\<close>

lemma tasks_member:
  "wf_db d \<Longrightarrow> t \<in> set (todos d) \<Longrightarrow> tasks d (tid t) = Some (task_of t)"
  by (simp add: tasks_def keyed_member wf_tid_distinct)

lemma tasks_delete_todo_row:
  assumes "wf_db d" and "t \<in> set (todos d)"
  shows "tasks (delete_todo_row d t) = store_delete (tid t) (tasks d)"
proof -
  have "filter (\<lambda>x. tid x \<noteq> tid t) (todos d) = filter (\<lambda>x. x \<noteq> t) (todos d)"
    using wf_tid_distinct [OF assms(1)] assms(2) by (rule filter_key_eq_remove)
  with assms show ?thesis
    by (simp add: tasks_def delete_todo_row_def keyed_remove wf_tid_distinct)
qed

lemma tasks_save_todo:
  assumes "wf_db d" and "t0 \<in> set (todos d)" and "tid t = tid t0"
  shows "tasks (save_todo d t) = store_update (tid t0) (\<lambda>_. task_of t) (tasks d)"
  using save_todo_replaces [OF assms] assms
  by (simp add: tasks_def keyed_replace wf_tid_distinct)

lemma tasks_users_update [simp]: "tasks (d\<lparr>users := us\<rparr>) = tasks d"
  by (simp add: tasks_def)

lemma tasks_user_ops [simp]:
  "tasks (save_user d u) = tasks d"
  "tasks (delete_user_row d u) = tasks d"
  "tasks (commit_user d user) = tasks d"
  by (simp_all add: tasks_def save_user_def delete_user_row_def commit_user_def split: option.splits)

lemma tasks_add_user: "add_user d pid nm pw adm = Inr d' \<Longrightarrow> tasks d' = tasks d"
  by (simp add: tasks_def add_user_todos)

lemma delete_task_request_run:
  assumes "todos d = t # ts"
  shows "snd (run_requests (delete_task_request e pid t # rqs) d) =
         snd (run_requests rqs (delete_todo_row d t))"
  using assms
  by (simp add: delete_task_request_def handle_request_def match_route_def token_required_def
      jwt_encode_def delete_todo_def nat_str_nonempty split: prod.splits)

section \<open>Refinement by the task views\<close>

text \<open>
  C23. \<^verbatim>\<open>delete_todo\<close> implements removal in the abstract task store, of the task the
  query selects: on a well-formed database a successful call removes exactly one task,
  whose owner id equals the path text as SQLite compares them (so \<^verbatim>\<open>2.0\<close> selects
  owner 2) and whose id is the least among the tasks of that owner (\<^verbatim>\<open>.first()\<close>
  in row-id order).
\<close>

theorem delete_todo_refines_delete:
  assumes "wf_db d" and "delete_todo cu x d = Inr (resp, d')"
  shows "\<exists>k t. tasks d k = Some t \<and> sql_eq_int x (int (task_owner t)) \<and>
           tasks d' = store_delete k (tasks d) \<and>
           (\<forall>k' t'. tasks d k' = Some t' \<and> task_owner t' = task_owner t \<longrightarrow> k \<le> k')"
proof -
  from assms(2) obtain t where f: "find (\<lambda>r. sql_eq_int x (int (user_id r))) (todos d) = Some t"
    and d': "d' = delete_todo_row d t"
    by (auto simp: delete_todo_def split: option.splits)
  from f have P: "sql_eq_int x (int (user_id t))" and t: "t \<in> set (todos d)"
    by (auto dest: find_Some_prop)
  have least: "tid t \<le> k'" if "tasks d k' = Some t'" and "task_owner t' = user_id t" for k' t'
  proof -
    from that(1) obtain r where r: "r \<in> set (todos d)" "tid r = k'" "task_of r = t'"
      unfolding tasks_def by (blast dest: keyed_SomeD)
    with that(2) P have "sql_eq_int x (int (user_id r))" by (auto simp: task_of_def)
    moreover have "sorted_wrt (<) (map tid (todos d))" using assms(1) by (simp add: wf_db_def)
    ultimately have "tid t \<le> tid r" using find_sorted_least [OF f _ r(1)] by blast
    with r(2) show ?thesis by simp
  qed
  show ?thesis
  proof (intro exI conjI allI impI)
    show "tasks d (tid t) = Some (task_of t)" using assms(1) t by (rule tasks_member)
    show "sql_eq_int x (int (task_owner (task_of t)))" using P by (simp add: task_of_def)
    show "tasks d' = store_delete (tid t) (tasks d)" using assms(1) t d' by (simp add: tasks_delete_todo_row)
  next
    fix k' t' assume "tasks d k' = Some t' \<and> task_owner t' = task_owner (task_of t)"
    then show "tid t \<le> k'" by (auto simp: task_of_def intro: least)
  qed
qed

theorem delete_todo_refines_delete_witness:
  "\<exists>k t. tasks demo_db k = Some t \<and> sql_eq_int ''2.0'' (int (task_owner t)) \<and>
     tasks (delete_todo_row demo_db demo_task) = store_delete k (tasks demo_db)"
proof -
  have wf: "wf_db demo_db" by (simp add: wf_db_def demo_store_defs)
  have h: "delete_todo None ''2.0'' demo_db =
      Inr (json_resp (JObj [(''to-do'', JStr ''Task has been deleted!'')]) 202,
           delete_todo_row demo_db demo_task)"
    by (simp add: delete_todo_def sql_reader_defs demo_store_defs)
  from delete_todo_refines_delete [OF wf h] show ?thesis by blast
qed

text \<open>
  C24. \<^verbatim>\<open>update_todo\<close> implements an abstract update of at most one task, which
  keeps its owner: on a well-formed database a successful call changes the store only at
  one id, by a function that never changes a task's owner.
\<close>

theorem update_todo_refines_update:
  assumes "wf_db d" and "update_todo cu x data d = Inr (resp, d')"
  shows "\<exists>k f. tasks d' = store_update k f (tasks d) \<and> (\<forall>t. task_owner (f t) = task_owner t)"
proof -
  from assms(2) obtain own_id t2 t3 where
      s2: "set_if_truthy data ''description'' set_description
             (find (\<lambda>t. int (user_id t) = own_id) (todos d)) = Inr t2" and
      s3: "set_if_truthy data ''complete'' set_complete t2 = Inr t3" and
      d': "d' = commit_todo d t3"
    by (auto simp: update_todo_def Let_def)
  define K where "K r \<longleftrightarrow> map_option (\<lambda>t. (tid t, user_id t)) r =
      map_option (\<lambda>t. (tid t, user_id t)) (find (\<lambda>t. int (user_id t) = own_id) (todos d))"
    for r :: "todo_row option"
  from s2 have "K t2"
    by (rule set_if_truthy_keeps) (auto simp: K_def set_description_def split: option.splits)
  with s3 have K3: "K t3"
    by (rule set_if_truthy_keeps) (auto simp: K_def set_complete_def split: option.splits)
  show ?thesis
  proof (cases t3)
    case None
    with d' have "tasks d' = store_update 0 (\<lambda>v. v) (tasks d)" by (simp add: commit_todo_def)
    then show ?thesis by fastforce
  next
    case (Some t1)
    with K3 obtain t0 where t0: "find (\<lambda>t. int (user_id t) = own_id) (todos d) = Some t0"
      and k: "tid t1 = tid t0" and own: "user_id t1 = user_id t0"
      by (cases "find (\<lambda>t. int (user_id t) = own_id) (todos d)") (auto simp: K_def)
    from t0 have mem: "t0 \<in> set (todos d)" by (auto dest: find_Some_prop)
    let ?f = "\<lambda>v. (task_of t1)\<lparr>task_owner := task_owner v\<rparr>"
    have "tasks d' = store_update (tid t0) (\<lambda>_. task_of t1) (tasks d)"
      using assms(1) mem k d' Some by (simp add: commit_todo_def tasks_save_todo)
    also have "\<dots> = store_update (tid t0) ?f (tasks d)"
      by (rule store_update_cong [where m = "tasks d", OF tasks_member [OF assms(1) mem]])
         (simp add: task_of_def own)
    finally show ?thesis by fastforce
  qed
qed

theorem update_todo_refines_update_witness:
  "\<exists>k f. tasks (save_todo demo_db (demo_task\<lparr>complete := Some True\<rparr>)) = store_update k f (tasks demo_db)"
proof -
  have wf: "wf_db demo_db" by (simp add: wf_db_def demo_store_defs)
  have h: "update_todo None ''2'' (Some (JObj [(''complete'', JBool True)])) demo_db =
      Inr (json_resp (JObj [(''to-do'', JStr ''Task updated successfully!'')]) 202,
           save_todo demo_db (demo_task\<lparr>complete := Some True\<rparr>))"
    by (simp add: update_todo_def int_arg_def int_reader_defs
        set_if_truthy_def dict_get_def obj_lookup_def set_complete_def bool_col_def
        commit_todo_def demo_store_defs)
  from update_todo_refines_update [OF wf h] show ?thesis by blast
qed

section \<open>Accounts and tasks together\<close>

text \<open>
  C25. Deleting an account keeps its tasks: on a well-formed database a successful
  \<^verbatim>\<open>delete_user\<close> leaves the task store as it was, while no account of the new
  database has the deleted account's id, so the tasks it owned are orphaned.
\<close>

theorem delete_user_orphans_tasks:
  assumes "wf_db d" and "delete_user cu x d = Inr (resp, d')"
  shows "tasks d' = tasks d \<and>
    (\<exists>u. find (\<lambda>u. public_id u = x) (users d) = Some u \<and> (\<forall>v \<in> set (users d'). uid v \<noteq> uid u))"
proof -
  from assms(2) obtain u where "find (\<lambda>u. public_id u = x) (users d) = Some u"
    and "d' = delete_user_row d u"
    by (auto simp: delete_user_def split: option.splits)
  then show ?thesis by (auto simp: delete_user_row_def)
qed

theorem delete_user_orphans_tasks_witness:
  "tasks (delete_user_row demo_db demo_bob) = tasks demo_db \<and>
   tasks demo_db 1 = Some (task_of demo_task) \<and> task_owner (task_of demo_task) = uid demo_bob \<and>
   uid demo_bob \<notin> uid ` set (users (delete_user_row demo_db demo_bob))"
proof -
  have wf: "wf_db demo_db" by (simp add: wf_db_def demo_store_defs)
  have h: "delete_user None ''4b2e-bob'' demo_db =
     Inr (json_resp (JObj [(''message'', JStr ''User: 4b2e-bob has been deleted!'')]) 202,
          delete_user_row demo_db demo_bob)"
    by (simp add: delete_user_def demo_store_defs)
  from delete_user_orphans_tasks [OF wf h] have "tasks (delete_user_row demo_db demo_bob) = tasks demo_db" ..
  then show ?thesis
    by (simp add: tasks_def keyed_def task_of_def delete_user_row_def demo_store_defs)
qed

text \<open>
  C26. A token whose account no longer exists still passes \<^verbatim>\<open>token_required\<close>,
  which calls the view with no current user: \<^verbatim>\<open>GET /todo\<close> answers 200 with every
  task, while \<^verbatim>\<open>POST /todo\<close> and \<^verbatim>\<open>GET /todo/<id>\<close>, which read
  \<^verbatim>\<open>current_user.id\<close>, raise and answer 500 with nothing changed (unless the
  body of the POST is malformed JSON: \<^verbatim>\<open>get_json()\<close> runs first and gives 400).
\<close>

theorem deleted_account_token:
  assumes "access_token rq = Some tok" and "jwt_decode (clock e) tok (secret_key e) = Some c"
    and "claim_public_id c = Some pid" and "find (\<lambda>u. public_id u = pid) (users d) = None"
    and "y \<noteq> []" and "json_body rq \<noteq> MalformedJson"
  shows "handle_request e (rq\<lparr>req_method := GET, path := [''todo'']\<rparr>) d =
           (json_resp (JObj [(''all-to-do'', JArr (map todo_json (todos d)))]) STATUS_CODE_200_SUCCESS, d) \<and>
         handle_request e (rq\<lparr>req_method := POST, path := [''todo'']\<rparr>) d = (internal_error, d) \<and>
         handle_request e (rq\<lparr>req_method := GET, path := [''todo'', y]\<rparr>) d = (internal_error, d)"
  using assms
  by (cases "json_body rq")
     (simp_all add: handle_request_def match_route_def token_required_def get_all_todo_def
      create_todo_def get_one_todo_def)

theorem deleted_account_token_witness:
  "handle_request demo_env (demo_request\<lparr>access_token := Some (Tok (JWT \<lparr>claim_public_id = Some ''ghost'',
       claim_exp = Some 1700000060\<rparr> ''k3y'')), req_method := POST, path := [''todo'']\<rparr>) demo_db =
     (internal_error, demo_db)"
proof -
  have a: "access_token (demo_request\<lparr>access_token := Some (Tok (JWT \<lparr>claim_public_id = Some ''ghost'',
       claim_exp = Some 1700000060\<rparr> ''k3y''))\<rparr>) = Some (Tok (JWT \<lparr>claim_public_id = Some ''ghost'',
       claim_exp = Some 1700000060\<rparr> ''k3y''))" by simp
  have b: "jwt_decode (clock demo_env) (Tok (JWT \<lparr>claim_public_id = Some ''ghost'',
       claim_exp = Some 1700000060\<rparr> ''k3y'')) (secret_key demo_env) =
     Some \<lparr>claim_public_id = Some ''ghost'', claim_exp = Some 1700000060\<rparr>"
    by (simp add: demo_env_def)
  have c: "find (\<lambda>u. public_id u = ''ghost'') (users demo_db) = None"
    by (simp add: demo_store_defs)
  show ?thesis
    using deleted_account_token [where y = "''1''", OF a b _ c] by (simp add: demo_request_def)
qed

text \<open>
  C28. Liveness of deletion: from any database, a client holding a token (under the
  application key, naming any public id, no account needed) reaches the database with an
  empty task table and the accounts untouched, by at most one
  \<^verbatim>\<open>DELETE /todo/<owner id>\<close> per task.  No view checks that the tasks deleted are
  the caller's.
\<close>

theorem any_token_clears_tasks:
  "\<exists>ts. snd (run_requests (map (delete_task_request e pid) ts) d) = d\<lparr>todos := []\<rparr> \<and>
        length ts \<le> length (todos d)"
proof (induction "length (todos d)" arbitrary: d rule: less_induct)
  case less
  show ?case
  proof (cases "todos d")
    case Nil
    then have "snd (run_requests (map (delete_task_request e pid) []) d) = d\<lparr>todos := []\<rparr>"
      by (cases d) simp
    then show ?thesis by fastforce
  next
    case (Cons t rest)
    let ?d' = "delete_todo_row d t"
    have len: "length (todos ?d') \<le> length rest"
      using Cons by (simp add: delete_todo_row_def)
    with Cons have "length (todos ?d') < length (todos d)" by simp
    with less obtain ts where
      ts: "snd (run_requests (map (delete_task_request e pid) ts) ?d') = ?d'\<lparr>todos := []\<rparr>"
      and "length ts \<le> length (todos ?d')"
      by blast
    moreover have "?d'\<lparr>todos := []\<rparr> = d\<lparr>todos := []\<rparr>" by (simp add: delete_todo_row_def)
    ultimately have "snd (run_requests (map (delete_task_request e pid) (t # ts)) d) = d\<lparr>todos := []\<rparr>"
      and "length (t # ts) \<le> length (todos d)"
      using Cons len by (simp_all add: delete_task_request_run)
    then show ?thesis by blast
  qed
qed

end
