(* ===== verification/Spec2Isabelle.thy ===== *)
theory Spec2Isabelle
  imports Tasks
begin

text \<open>
  \<^bold>\<open>A verification model of the to-do REST API of \<^verbatim>\<open>src/api.py\<close>.\<close>

  The program is one Flask module.  A client logs in at \<^verbatim>\<open>/login\<close> with Basic
  credentials and receives a signed, time-limited token; every other route is wrapped by
  the decorator \<^verbatim>\<open>token_required\<close>, which reads the token from the
  \<^verbatim>\<open>X-Access-Token\<close> header, resolves it to an account and calls the view.  The
  views read and write two SQLAlchemy tables, \<^verbatim>\<open>User\<close> and \<^verbatim>\<open>Todo\<close>; the
  error handlers turn unknown routes, wrong methods and uncaught exceptions into JSON
  answers 404, 405 and 500.  Requests are handled one at a time, each ending with a
  commit or, after an exception, a rollback.

  \<^bold>\<open>Theories and what they model.\<close>
  \<^item> \<open>Prelude\<close>: the Python exceptions (\<open>py_exn\<close>, including werkzeug's
    \<open>BadRequest\<close>), results \<open>py_exn + 'a\<close> with \<open>bind_r\<close>, decimal printing,
    SQLite's next row id (\<open>next_id\<close>), the list lemmas behind \<^verbatim>\<open>.first()\<close>
    (\<open>find\<close>) and \<^verbatim>\<open>filter_by\<close> (\<open>filter\<close>), and the abstract keyed store of the
    specification shared by both tables: \<open>keyed\<close> reads a table as a finite map,
    \<open>store_update\<close> and \<open>store_delete\<close> are the operations the views perform on it.
  \<^item> \<open>Crypto\<close>: the libraries the code calls, from their contracts: werkzeug's salted
    hash (\<open>generate_password_hash\<close>, \<open>check_password_hash\<close>) and PyJWT
    (\<open>jwt_encode\<close>, \<open>jwt_decode\<close>, which refuses a foreign key and
    \<^verbatim>\<open>exp <= now\<close>).  Hashes and tokens are symbolic values.
  \<^item> \<open>Json\<close>: parsed bodies and payloads (\<open>jval\<close>); Python truthiness,
    \<^verbatim>\<open>data[k]\<close> (\<open>subscript\<close>, raising \<open>KeyError\<close>/\<open>TypeError\<close>),
    \<^verbatim>\<open>data.get(k)\<close>, CPython's \<^verbatim>\<open>int(s)\<close> (\<open>parse_int\<close>: white space
    stripped, underscores between digits), SQLite's comparison of a text with an INTEGER
    column under numeric affinity (\<open>sql_numeric\<close>, \<open>sql_eq_int\<close>), and the
    conversion a value undergoes when it is written to a text or Boolean column.
  \<^item> \<open>Store\<close>: the classes \<^verbatim>\<open>User\<close> and \<^verbatim>\<open>Todo\<close> as records
    \<open>user_row\<close>, \<open>todo_row\<close>; the database \<open>db\<close> as two lists in row-id order;
    the session operations the views perform (\<open>add_user\<close> with the unique constraint on
    \<^verbatim>\<open>public_id\<close>, \<open>add_todo\<close>, \<open>save_user\<close>, \<open>save_todo\<close>,
    \<open>delete_user_row\<close>, \<open>delete_todo_row\<close>); the invariant \<open>wf_db\<close> and its
    preservation by each operation.
  \<^item> \<open>Http\<close>: responses, the status constants of \<^verbatim>\<open>settings.py\<close>, the error views
    \<^verbatim>\<open>not_found\<close>, \<^verbatim>\<open>internal_error\<close>, \<^verbatim>\<open>not_allowed\<close> and werkzeug's
    400 answer \<open>bad_request\<close> (\<open>error_response\<close> picks the answer to an exception),
    the request with its body as \<^verbatim>\<open>get_json()\<close> sees it (\<open>json_payload\<close>: not
    JSON, malformed, or a value; \<open>get_json\<close>, \<open>with_json\<close>), and \<open>env\<close>: the
    signing key, the clock, the next random UUID and salt.  Randomness and time are inputs
    of each step, so every definition is a function.
  \<^item> \<open>Auth\<close>: \<^verbatim>\<open>login\<close> (\<open>login\<close>, with the issued token \<open>issued_token\<close>
    and its lifetime \<open>token_lifetime\<close>) and \<^verbatim>\<open>token_required\<close>
    (\<open>token_required\<close>, a function of the wrapped view).  Claims C2, C15, C16.
  \<^item> \<open>Users\<close>: \<^verbatim>\<open>get_all_users\<close>, \<^verbatim>\<open>get_one_user\<close>,
    \<^verbatim>\<open>create_new_user\<close>, \<^verbatim>\<open>update_user\<close> (the \<^verbatim>\<open>try/except KeyError\<close>
    blocks as \<open>set_if_given\<close> over the ORM object), \<^verbatim>\<open>delete_user\<close>.  Each view
    is given the parsed body and returns the answer and the committed database, or its
    exception.  Claims C4, C5, C12, C13, C18.
  \<^item> \<open>Todos\<close>: the five task views, with the source's addressing kept: the path id of
    \<^verbatim>\<open>get_one_todo\<close> is never read, \<^verbatim>\<open>update_todo\<close> reads it with Python's
    \<^verbatim>\<open>int()\<close> and \<^verbatim>\<open>delete_todo\<close> lets SQLite compare it as text, both as an
    owner id.  Claims C9, C11, C14.
  \<^item> \<open>App\<close>: the route table (\<open>match_route\<close>, \<open>allowed_methods\<close>), the view
    each route and method select (\<open>app_view\<close>, reading the body first where the view
    does), one request (\<open>handle_request\<close>: 404, 405, a view's answer, 400 for a
    malformed body, or 500 with the database rolled back), runs of requests and the
    reachable databases (\<open>reachable\<close>).  Claims C3, C6, C7, C8, C10, C17, C19, C27.
  \<^item> \<open>Accounts\<close>: the account store as the specification describes it, a finite map
    \<open>accounts d\<close> from public ids to \<open>account\<close> records (name, hash, admin flag).
    Saving and deleting a row refine \<open>store_update\<close> and \<open>store_delete\<close> on
    well-formed databases (\<open>accounts_save_user\<close>, \<open>accounts_delete_user_row\<close>; the
    task operations leave the account map alone), and so do the account views: C20
    (delete), C21 (update).  C22 states the missing authorisation check: any token that
    decodes grants the admin flag of any account.
  \<^item> \<open>Tasks\<close>: the task store, a finite map \<open>tasks d\<close> from task ids to \<open>task\<close>
    records (owner, description, completion).  \<^verbatim>\<open>delete_todo\<close> removes the owner's
    first task (C23) and \<^verbatim>\<open>update_todo\<close> is an owner-preserving update of one task
    (C24).  The two stores together: deleting an account orphans its tasks (C25); a token
    of a deleted account reaches the views with no current user (C26); any valid token
    can empty the task table, by a run of requests built with
    \<open>delete_task_request\<close>, proved by strong induction on the number of tasks (C28).
  \<^item> this theory: C1, a login's token resolves back to the account that logged in.

  \<^bold>\<open>Lemma groups.\<close>  Every store operation keeps \<open>wf_db\<close> (\<open>wf_store_ops\<close>);
  every view keeps it and never answers 500 itself (\<open>users_views_wf\<close>,
  \<open>todos_views_wf\<close>, \<open>*_views_status\<close>); the decorator keeps whatever the view
  keeps (\<open>token_required_keeps\<close>); hence one request keeps it
  (\<open>handle_request_wf\<close>) and, by rule induction, every reachable database is well
  formed (C8).  The frame property of \<open>update_user\<close> rests on \<open>set_if_given\<close>
  skipping absent and falsy fields and on \<open>save_user\<close> replacing exactly one row in a
  well-formed table.  The refinement claims share the keyed-store lemmas of
  \<open>Prelude\<close> (\<open>keyed_remove\<close>, \<open>keyed_replace\<close>, \<open>store_update_cong\<close>):
  filtering one row out and replacing one row of a duplicate-free table are the abstract
  operations.  C27 rests on \<open>body_routes\<close> (the four views that read the body, and
  that they raise on \<^verbatim>\<open>None\<close>) and \<open>token_required_runs_view\<close>; the liveness
  claim C28 on \<open>sql_eq_int_nat_str\<close>: the owner id printed in the path selects that
  owner's first task.

  \<^bold>\<open>Choices.\<close>  Time is whole seconds (PyJWT writes \<^verbatim>\<open>exp\<close> as an integer, so
  \<^verbatim>\<open>exp <= now\<close> is the same test on the floor of the clock).  Python integers are
  \<open>int\<close>, row ids \<open>nat\<close>.  The engine is SQLite: new row id one above the largest,
  TEXT affinity for string columns, numeric affinity when a text is compared with an
  INTEGER column, scans in row-id order.  werkzeug is taken before 2.3 (the versions in
  which \<^verbatim>\<open>method='sha256'\<close> is accepted): \<^verbatim>\<open>get_json()\<close> gives \<^verbatim>\<open>None\<close> for a
  body not declared as JSON.  No loop of the program is unbounded (the views iterate over
  finite tables with \<open>map\<close> and \<open>filter\<close>), so no definition needs fuel or a
  partial function; the non-structural recursions (\<open>nat_str\<close>,
  \<open>single_underscores\<close>) are \<^theory_text>\<open>fun\<close>s whose termination is proved.  The only
  unbounded iteration is the client's: C28 is proved by strong induction on the length
  of the task table, each request removing at least one row.  Where a value is
  converted for a column, the model raises at assignment rather than at flush; every
  such exception gives the same 500 answer with nothing committed, so this is not
  observable.

  \<^bold>\<open>Not modelled.\<close>  Start-up (\<^verbatim>\<open>load_dotenv\<close>, \<^verbatim>\<open>app.config\<close>, engine
  bootstrap, \<^verbatim>\<open>app.run(debug=True)\<close>, whose debugger would answer an exception in
  place of the 500 handler), Flask's automatic HEAD and OPTIONS answers, non-ASCII
  characters (Unicode digits and spaces in \<^verbatim>\<open>int()\<close>), SQLite's rounding of a
  non-integer literal through a double, the 2^63 limit of row ids, engines other than
  SQLite, the text form of hashes, tokens and werkzeug's error page, and concurrent
  requests (the specification's model is one request at a time).

  \<^bold>\<open>Plan for the next sittings.\<close>  The remaining authorisation gaps stated as
  they hold (any valid token may create or delete any account).
\<close>

section \<open>Authentication end to end\<close>

text \<open>
  C1. Logging in with a name whose first account's password hash accepts the password
  issues a token; presented to any protected view before it expires (same signing key,
  clock earlier than issue time plus the lifetime), \<^verbatim>\<open>token_required\<close> resolves it
  to that same account and runs the view with it.
\<close>

theorem login_token_roundtrip:
  assumes wf: "wf_db d"
    and user: "find (\<lambda>u. name u = Some username) (users d) = Some user"
    and cred: "username \<noteq> []" "pw \<noteq> []" "check_password_hash (password user) pw"
    and later: "secret_key e' = secret_key e" "clock e' < clock e + token_lifetime"
  shows "\<exists>t. login e (Some (username, pw)) d =
               json_resp (JObj [(''token'', JToken t)]) STATUS_CODE_200_SUCCESS \<and>
             token_required fn e' (Some (Tok t)) d = fn (Some user) d"
proof (intro exI conjI)
  show "login e (Some (username, pw)) d =
      json_resp (JObj [(''token'', JToken (issued_token e user))]) STATUS_CODE_200_SUCCESS"
    by (rule login_issues [OF cred(1,2) user cred(3)])
  from user have "user \<in> set (users d)" by (blast dest: find_Some_prop)
  with wf have "find (\<lambda>u. public_id u = public_id user) (users d) = Some user"
    by (rule wf_find_public_id)
  moreover have "jwt_decode (clock e') (Tok (issued_token e user)) (secret_key e') =
      Some \<lparr>claim_public_id = Some (public_id user), claim_exp = Some (clock e + token_lifetime)\<rparr>"
    using later by (simp add: issued_token_def jwt_encode_def)
  ultimately show "token_required fn e' (Some (Tok (issued_token e user))) d = fn (Some user) d"
    by (simp add: token_required_decoded)
qed

theorem login_token_roundtrip_witness:
  "\<exists>t. login demo_env (Some (''alice'', ''s3cret'')) demo_db =
        json_resp (JObj [(''token'', JToken t)]) STATUS_CODE_200_SUCCESS \<and>
      token_required get_all_users (demo_env\<lparr>clock := 1700003600\<rparr>) (Some (Tok t)) demo_db =
        get_all_users (Some demo_alice) demo_db"
  by (rule login_token_roundtrip)
     (simp_all add: wf_db_def demo_store_defs demo_env_def token_lifetime_def)

end
